theory Spec2Isabelle
  imports Complex_Main "HOL-Library.AList"
begin

section \<open>Python values and exceptions\<close>

text \<open>
  The configuration of the training script is read from a YAML file, so its values are
  Python scalars and dictionaries. Numbers (YAML integers and floats) are idealised as
  reals; a dictionary is an association list, looked up with \<open>map_of\<close>.
\<close>

datatype pyval =
    PNone
  | PBool bool
  | PNum real
  | PStr string
  | PDict "(string \<times> pyval) list"

type_synonym pydict = "(string \<times> pyval) list"

text \<open>
  Exceptions are values. \<open>ExternalError\<close> stands for any exception (a subclass of
  Python's \<open>Exception\<close>) raised inside a library or a collaborator.
\<close>

datatype py_error =
    KeyError string
  | TypeError string
  | ValueError string
  | RuntimeError string
  | ZeroDivisionError string
  | UnboundLocalError string
  | AssertionError string pyval
  | ExternalError string

section \<open>experiments/histo-seg/train.py: collate\<close>

text \<open>
  A graph of the graph library carries its number of nodes and its edges. A batched graph
  is the disjoint union of its members: the members' nodes are renumbered consecutively,
  and \<open>batch_num_nodes\<close> lists the members' node counts in merge order.
\<close>

record dgl_graph =
  number_of_nodes :: nat
  edge_list :: "(nat \<times> nat) list"

record batched_graph =
  total_nodes :: nat
  batched_edges :: "(nat \<times> nat) list"
  batch_num_nodes :: "nat list"

type_synonym sample = "dgl_graph \<times> real list \<times> int list"

type_synonym batch = "batched_graph \<times> real list list \<times> int list"

definition sample_graph :: "sample \<Rightarrow> dgl_graph" where
  "sample_graph s = fst s"

definition sample_graph_label :: "sample \<Rightarrow> real list" where
  "sample_graph_label s = fst (snd s)"

definition sample_node_labels :: "sample \<Rightarrow> int list" where
  "sample_node_labels s = snd (snd s)"

fun shift_edges :: "nat \<Rightarrow> (nat \<times> nat) list \<Rightarrow> (nat \<times> nat) list" where
  "shift_edges off [] = []"
| "shift_edges off ((u, v) # es) = (u + off, v + off) # shift_edges off es"

fun merge_edges :: "nat \<Rightarrow> dgl_graph list \<Rightarrow> (nat \<times> nat) list" where
  "merge_edges off [] = []"
| "merge_edges off (g # gs) =
     shift_edges off (edge_list g) @ merge_edges (off + number_of_nodes g) gs"

text \<open>\<open>dgl.batch\<close>: refuses an empty list, otherwise merges in list order.\<close>

definition dgl_batch :: "dgl_graph list \<Rightarrow> py_error + batched_graph" where
  "dgl_batch graphs =
     (if graphs = [] then Inl (ExternalError ''dgl.batch: empty graph list'')
      else Inr \<lparr> total_nodes = sum_list (map number_of_nodes graphs),
                 batched_edges = merge_edges 0 graphs,
                 batch_num_nodes = map number_of_nodes graphs \<rparr>)"

text \<open>
  \<open>torch.stack\<close> on one-dimensional tensors: the list must be non-empty and all tensors
  must have the size of the first; the result has one row per tensor, in list order.
\<close>

definition same_size :: "real list list \<Rightarrow> bool" where
  "same_size ts = list_all (\<lambda>t. length t = length (hd ts)) ts"

definition torch_stack :: "real list list \<Rightarrow> py_error + real list list" where
  "torch_stack ts =
     (if ts = [] then Inl (RuntimeError ''stack expects a non-empty TensorList'')
      else if \<not> same_size ts
        then Inl (RuntimeError ''stack expects each tensor to be equal size'')
      else Inr ts)"

text \<open>\<open>torch.cat\<close> on one-dimensional tensors: non-empty list, concatenation in order.\<close>

definition torch_cat :: "int list list \<Rightarrow> py_error + int list" where
  "torch_cat ts =
     (if ts = [] then Inl (RuntimeError ''torch.cat(): expected a non-empty list of Tensors'')
      else Inr (concat ts))"

text \<open>
  \<open>graphs, graph_labels, node_labels = map(list, zip(*samples))\<close>: the transposition of
  a list of triples yields three lists, and nothing for the empty list, where the
  unpacking into three names raises.
\<close>

definition unpack_samples ::
  "sample list \<Rightarrow> py_error + (dgl_graph list \<times> real list list \<times> int list list)" where
  "unpack_samples samples =
     (if samples = []
      then Inl (ValueError ''not enough values to unpack (expected 3, got 0)'')
      else Inr (map sample_graph samples,
                map sample_graph_label samples,
                map sample_node_labels samples))"

definition collate :: "sample list \<Rightarrow> py_error + batch" where
  "collate samples =
     (case unpack_samples samples of
        Inl e \<Rightarrow> Inl e
      | Inr (graphs, graph_labels, node_labels) \<Rightarrow>
          (case dgl_batch graphs of
             Inl e \<Rightarrow> Inl e
           | Inr g \<Rightarrow>
               (case torch_stack graph_labels of
                  Inl e \<Rightarrow> Inl e
                | Inr gl \<Rightarrow>
                    (case torch_cat node_labels of
                       Inl e \<Rightarrow> Inl e
                     | Inr nl \<Rightarrow> Inr (g, gl, nl)))))"

section \<open>histocartography/io/utils.py\<close>

text \<open>
  The S3 helpers talk to the operating system and to the S3 client. Each such call is a
  field of the world record and returns either its value or the exception it raises. The
  exceptions of these calls are instances of Python's \<open>Exception\<close>, which is what the
  handler of \<open>download_file_to_local\<close> catches.
\<close>

datatype log_record =
    LogDebug string "string list"
  | LogError string "string list"

record 's3 s3_world =
  environ :: "string \<Rightarrow> string option"
  boto3_resource :: "string \<Rightarrow> string option \<Rightarrow> string option \<Rightarrow> py_error + 's3"
  open_wb :: "string \<Rightarrow> py_error + string"
  abspath :: "string \<Rightarrow> string"
  dirname :: "string \<Rightarrow> string"
  listdir :: "string \<Rightarrow> py_error + string list"
  download_fileobj :: "'s3 \<Rightarrow> string \<Rightarrow> string \<Rightarrow> string \<Rightarrow> py_error option"
  close_file :: "string \<Rightarrow> py_error option"

text \<open>\<open>str(error)\<close>: the message of the exception.\<close>

fun error_text :: "py_error \<Rightarrow> string" where
  "error_text (KeyError m) = m"
| "error_text (TypeError m) = m"
| "error_text (ValueError m) = m"
| "error_text (RuntimeError m) = m"
| "error_text (ZeroDivisionError m) = m"
| "error_text (UnboundLocalError m) = m"
| "error_text (AssertionError m v) = m"
| "error_text (ExternalError m) = m"

definition default_endpoint_url :: string where
  "default_endpoint_url = ''http://data.digital-pathology.zc2.ibm.com:9000''"

text \<open>
  \<open>get_s3\<close>: when a key is missing, both are read from the process environment; a
  missing variable is logged and the connection is attempted all the same, with whatever
  was assigned before the lookup failed.
\<close>

definition get_s3 ::
  "'s3 s3_world \<Rightarrow> string \<Rightarrow> string option \<Rightarrow> string option
    \<Rightarrow> (py_error + 's3) \<times> log_record list" where
  "get_s3 w endpoint_url aws_access_key_id aws_secret_access_key =
     (let (key_id, secret, logs) =
        (if aws_access_key_id = None \<or> aws_secret_access_key = None then
           (case environ w ''AWS_ACCESS_KEY_ID'' of
              None \<Rightarrow>
                (aws_access_key_id, aws_secret_access_key,
                 [LogError ''No access keys provided for {}. Please set Environment Variables''
                    [endpoint_url]])
            | Some k \<Rightarrow>
                (case environ w ''AWS_SECRET_ACCESS_KEY'' of
                   None \<Rightarrow>
                     (Some k, aws_secret_access_key,
                      [LogError ''No access keys provided for {}. Please set Environment Variables''
                         [endpoint_url]])
                 | Some s \<Rightarrow> (Some k, Some s, [])))
         else (aws_access_key_id, aws_secret_access_key, []))
      in case boto3_resource w endpoint_url key_id secret of
           Inl e \<Rightarrow> (Inl e, logs)
         | Inr s3 \<Rightarrow> (Inr s3, logs @ [LogDebug ''S3 Connection established'' []]))"

text \<open>\<open>if s3 is None: s3 = get_s3()\<close>, which stands before the \<open>try\<close>.\<close>

definition obtain_s3 :: "'s3 s3_world \<Rightarrow> 's3 option \<Rightarrow> (py_error + 's3) \<times> log_record list" where
  "obtain_s3 w s3 =
     (case s3 of
        None \<Rightarrow> get_s3 w default_endpoint_url None None
      | Some h \<Rightarrow> (Inr h, []))"

text \<open>
  Leaving the \<open>with\<close> block closes the file, whether the block raised or not; an
  exception of the close replaces the one in flight.
\<close>

definition leave_with :: "'s3 s3_world \<Rightarrow> string \<Rightarrow> py_error option \<Rightarrow> py_error option" where
  "leave_with w file raised =
     (case close_file w file of
        Some e \<Rightarrow> Some e
      | None \<Rightarrow> raised)"

text \<open>
  The body of the \<open>try\<close>: the exception it raises, if any, and what it logged. The
  directory listing is evaluated as an argument of the second log call, before the
  download starts.
\<close>

definition try_download ::
  "'s3 s3_world \<Rightarrow> 's3 \<Rightarrow> string \<Rightarrow> string \<Rightarrow> string
    \<Rightarrow> py_error option \<times> log_record list" where
  "try_download w s3 bucket_name s3file local_name =
     (case open_wb w local_name of
        Inl e \<Rightarrow> (Some e, [])
      | Inr file \<Rightarrow>
          (let filepath = abspath w file;
               dir = dirname w file;
               logs = [LogDebug ''Downloading %s to %s'' [local_name, filepath]]
           in case listdir w dir of
                Inl e \<Rightarrow> (leave_with w file (Some e), logs)
              | Inr names \<Rightarrow>
                  (leave_with w file (download_fileobj w s3 bucket_name s3file file),
                   logs @ [LogDebug ''Currently contains: %s'' names])))"

definition download_file_to_local ::
  "'s3 s3_world \<Rightarrow> 's3 option \<Rightarrow> string \<Rightarrow> string \<Rightarrow> string
    \<Rightarrow> (py_error + string option) \<times> log_record list" where
  "download_file_to_local w s3 bucket_name s3file local_name =
     (case obtain_s3 w s3 of
        (Inl e, logs) \<Rightarrow> (Inl e, logs)
      | (Inr h, logs) \<Rightarrow>
          (case try_download w h bucket_name s3file local_name of
             (Some error, logs') \<Rightarrow>
               (Inr None,
                logs @ logs' @
                [LogError ''%s could not be downloaded to %s'' [s3file, local_name],
                 LogError (error_text error) []])
           | (None, logs') \<Rightarrow> (Inr (Some local_name), logs @ logs')))"

text \<open>
  \<open>os.path.dirname\<close> on POSIX paths: everything up to the last slash, without
  trailing slashes unless it consists of slashes only.
\<close>

definition posix_dirname :: "string \<Rightarrow> string" where
  "posix_dirname path =
     (let head = rev (dropWhile (\<lambda>c. c \<noteq> CHR ''/'') (rev path))
      in if head \<noteq> [] \<and> \<not> list_all (\<lambda>c. c = CHR ''/'') head
         then rev (dropWhile (\<lambda>c. c = CHR ''/'') (rev head))
         else head)"

text \<open>
  An example world. The only directory is \<open>/data\<close>, which holds the file once it has
  been opened for writing; listing any other directory, the empty path included, raises.
  Opening, connecting and closing succeed, and the download has the given outcome.
\<close>

definition example_world :: "py_error option \<Rightarrow> unit s3_world" where
  "example_world download_outcome =
     \<lparr> environ = (\<lambda>name. None),
       boto3_resource = (\<lambda>url key_id secret. Inr ()),
       open_wb = (\<lambda>name. Inr name),
       abspath = (\<lambda>name. if take 1 name = ''/'' then name else ''/work/'' @ name),
       dirname = posix_dirname,
       listdir = (\<lambda>dir. if dir = ''/data'' then Inr [''tmp.svs'']
                         else Inl (ExternalError ''FileNotFoundError'')),
       download_fileobj = (\<lambda>s3 bucket key file. download_outcome),
       close_file = (\<lambda>file. None) \<rparr>"

section \<open>experiments/histo-seg/train.py: the training script\<close>

subsection \<open>Dictionaries and numbers\<close>

text \<open>\<open>d[k]\<close> raises KeyError on a missing key; \<open>d.get(k, default)\<close> does not.\<close>

definition getitem :: "pydict \<Rightarrow> string \<Rightarrow> py_error + pyval" where
  "getitem d k = (case map_of d k of None \<Rightarrow> Inl (KeyError k) | Some v \<Rightarrow> Inr v)"

definition get_or :: "pydict \<Rightarrow> string \<Rightarrow> pyval \<Rightarrow> pyval" where
  "get_or d k dflt = (case map_of d k of None \<Rightarrow> dflt | Some v \<Rightarrow> v)"

text \<open>
  The values Python compares and subtracts as numbers: numbers, and booleans as 0 and 1.
  Every other value makes the comparison with a float raise TypeError.
\<close>

fun as_number :: "pyval \<Rightarrow> real option" where
  "as_number (PNum r) = Some r"
| "as_number (PBool b) = Some (if b then 1 else 0)"
| "as_number PNone = None"
| "as_number (PStr s) = None"
| "as_number (PDict d) = None"

text \<open>\<open>epoch % validation_frequency\<close> on integers: floored, and an error on zero.\<close>

definition py_mod :: "int \<Rightarrow> int \<Rightarrow> py_error + int" where
  "py_mod a b =
     (if b = 0 then Inl (ZeroDivisionError ''integer division or modulo by zero'')
      else Inr (a mod b))"

subsection \<open>Collaborators and observable calls\<close>

type_synonym logits = "real list list"

text \<open>
  A criterion is called with the logits and labels of the graph head, or with those of
  the node head and the per-graph node counts; it returns the scalar loss.
\<close>

datatype criterion_args =
    GraphArgs "logits option" "real list list"
  | NodeArgs "logits option" "int list" "nat list"

type_synonym criterion = "criterion_args \<Rightarrow> real"

datatype mode = Training | Evaluation

record dataset_module =
  background_class :: int
  nr_classes :: nat
  training_dataset :: "sample list"
  validation_dataset :: "sample list"

text \<open>
  The collaborators of the script, which are not part of it. \<open>'m\<close> is the state of the
  tensor engine: the model's parameters, their gradients and the optimizer. A call that
  the script makes once at startup may raise; the tensor operations inside an iteration
  are taken to return. \<open>data_loader\<close> is the rest of the construction of a loader
  over a dataset, once its arguments have been checked: given the dataset, the batch size,
  the shuffle flag and the number of workers, it raises or gives, for each pass over the
  dataset, the sample lists that the loader hands to its collate function.
\<close>

record 'm train_env =
  fix_seeds :: "int option \<Rightarrow> int"
  prepare_datasets :: "string \<Rightarrow> pydict \<Rightarrow> py_error + dataset_module"
  data_loader ::
    "sample list \<Rightarrow> int \<Rightarrow> bool \<Rightarrow> int \<Rightarrow> py_error + (nat \<Rightarrow> sample list list)"
  device_name :: string
  WeakTissueClassifier :: "pydict \<Rightarrow> py_error + 'm"
  nr_parameters :: "'m \<Rightarrow> nat"
  losses_module :: "string \<Rightarrow> py_error + (pydict \<Rightarrow> py_error + criterion)"
  torch_optim :: "string \<Rightarrow> py_error + ('m \<Rightarrow> pyval \<Rightarrow> py_error + 'm)"
  forward :: "mode \<Rightarrow> 'm \<Rightarrow> batched_graph \<Rightarrow> (logits option \<times> logits option) \<times> 'm"
  backward :: "real \<Rightarrow> 'm \<Rightarrow> 'm"
  clip_grad_norm :: "real \<Rightarrow> 'm \<Rightarrow> 'm"
  optimizer_step :: "'m \<Rightarrow> 'm"

record iteration_outputs =
  out_graph_loss :: "real option"
  out_node_loss :: "real option"
  out_graph_logits :: "logits option"
  out_node_logits :: "logits option"
  out_graph_labels :: "real list list"
  out_node_labels :: "int list"
  out_node_associations :: "nat list"

text \<open>
  What a run does to the outside is the sequence of its calls to the experiment tracker,
  the metric loggers and the engine. The value of a duration metric is wall-clock time
  and is left out of its event.
\<close>

datatype 'm event =
    SetExperiment string
  | SetTags pydict
  | LogArtifact string string
  | LogSources
  | LogParameters pydict pydict int int pydict pydict int "real option"
  | LogParam string pyval
  | LoggerInit pydict string int nat "real option" "real option"
  | Backward real
  | ClipGradNorm real
  | OptimizerStep
  | AddIterationOutputs string iteration_outputs
  | TrainLogAndClear nat
  | ValidLogAndClear nat "'m option"
  | LogMetric string nat

text \<open>
  A piece of the script is the pair of its outcome (the exception it raised, or its
  value) and the calls it made, in order.
\<close>

type_synonym ('m, 'a) prog = "(py_error + 'a) \<times> 'm event list"

definition ret :: "'a \<Rightarrow> ('m, 'a) prog" where
  "ret x = (Inr x, [])"

definition call :: "py_error + 'a \<Rightarrow> ('m, 'a) prog" where
  "call r = (r, [])"

definition emit :: "'m event \<Rightarrow> ('m, unit) prog" where
  "emit ev = (Inr (), [ev])"

definition and_then :: "('m, 'a) prog \<Rightarrow> ('a \<Rightarrow> ('m, 'b) prog) \<Rightarrow> ('m, 'b) prog" where
  "and_then m f =
     (case m of
        (Inl e, evs) \<Rightarrow> (Inl e, evs)
      | (Inr x, evs) \<Rightarrow> (case f x of (r, evs') \<Rightarrow> (r, evs @ evs')))"

text \<open>Reading a local variable that no branch has assigned raises.\<close>

definition read_var :: "string \<Rightarrow> 'a option \<Rightarrow> ('m, 'a) prog" where
  "read_var name v =
     (case v of
        None \<Rightarrow> call (Inl (UnboundLocalError name))
      | Some x \<Rightarrow> ret x)"

subsection \<open>get_loss and the loss weights (lines 37-41 and 129-139)\<close>

definition get_loss :: "'m train_env \<Rightarrow> pydict \<Rightarrow> string \<Rightarrow> py_error + criterion" where
  "get_loss env config name =
     (case getitem config name of
        Inl e \<Rightarrow> Inl e
      | Inr (PDict loss_config) \<Rightarrow>
          (case getitem loss_config ''class'' of
             Inl e \<Rightarrow> Inl e
           | Inr (PStr class_name) \<Rightarrow>
               (case losses_module env class_name of
                  Inl e \<Rightarrow> Inl e
                | Inr loss_class \<Rightarrow>
                    (case get_or loss_config ''params'' (PDict []) of
                       PDict params \<Rightarrow> loss_class params
                     | _ \<Rightarrow> Inl (TypeError ''argument after ** must be a mapping'')))
           | Inr _ \<Rightarrow> Inl (TypeError ''attribute name must be string''))
      | Inr _ \<Rightarrow> Inl (TypeError ''loss configuration is not subscriptable''))"

text \<open>
  The local variables of the loss section. A variable that its guard leaves unassigned is
  \<open>None\<close> here.
\<close>

record loss_plan =
  use_graph_head :: bool
  use_node_head :: bool
  graph_criterion :: "criterion option"
  node_criterion :: "criterion option"
  node_loss_weight :: "real option"
  graph_loss_weight :: "real option"

definition loss_setup :: "'m train_env \<Rightarrow> pydict \<Rightarrow> bool \<Rightarrow> bool \<Rightarrow> py_error + loss_plan" where
  "loss_setup env loss graph_head node_head =
     (case (if graph_head then map_sum id Some (get_loss env loss ''graph'') else Inr None) of
        Inl e \<Rightarrow> Inl e
      | Inr gc \<Rightarrow>
          (case (if node_head then map_sum id Some (get_loss env loss ''node'') else Inr None) of
             Inl e \<Rightarrow> Inl e
           | Inr nc \<Rightarrow>
               (if graph_head \<and> node_head then
                  (let weight = get_or loss ''node_weight'' (PNum 0.5) in
                   case as_number weight of
                     None \<Rightarrow> Inl (TypeError ''<= not supported between float and this value'')
                   | Some w \<Rightarrow>
                       if 0 \<le> w \<and> w \<le> 1
                       then Inr \<lparr> use_graph_head = graph_head, use_node_head = node_head,
                                  graph_criterion = gc, node_criterion = nc,
                                  node_loss_weight = Some w,
                                  graph_loss_weight = Some (1 - w) \<rparr>
                       else Inl (AssertionError
                                   ''Node weight loss must be between 0 and 1, but is'' weight))
                else Inr \<lparr> use_graph_head = graph_head, use_node_head = node_head,
                           graph_criterion = gc, node_criterion = nc,
                           node_loss_weight = None, graph_loss_weight = None \<rparr>)))"

subsection \<open>One training iteration (lines 171-211)\<close>

definition compute_losses ::
  "loss_plan \<Rightarrow> logits option \<Rightarrow> logits option \<Rightarrow> batch \<Rightarrow> ('m, real option \<times> real option) prog" where
  "compute_losses p graph_logits node_logits b =
     (case b of (graph, graph_labels, node_labels) \<Rightarrow>
        and_then
          (if use_graph_head p
           then and_then (read_var ''graph_criterion'' (graph_criterion p))
                  (\<lambda>c. ret (Some (c (GraphArgs graph_logits graph_labels))))
           else ret None)
          (\<lambda>graph_loss.
        and_then
          (if use_node_head p
           then and_then (read_var ''node_criterion'' (node_criterion p))
                  (\<lambda>c. ret (Some (c (NodeArgs node_logits node_labels (batch_num_nodes graph)))))
           else ret None)
          (\<lambda>node_loss. ret (graph_loss, node_loss))))"

definition backward_pass ::
  "'m train_env \<Rightarrow> loss_plan \<Rightarrow> real option \<Rightarrow> real option \<Rightarrow> 'm \<Rightarrow> ('m, 'm) prog" where
  "backward_pass env p graph_loss node_loss m =
     (if use_graph_head p \<and> use_node_head p then
        and_then (read_var ''graph_loss_weight'' (graph_loss_weight p)) (\<lambda>glw.
        and_then (read_var ''graph_loss'' graph_loss) (\<lambda>gl.
        and_then (read_var ''node_loss_weight'' (node_loss_weight p)) (\<lambda>nlw.
        and_then (read_var ''node_loss'' node_loss) (\<lambda>nl.
        and_then (emit (Backward (glw * gl + nlw * nl))) (\<lambda>_.
        ret (backward env (glw * gl + nlw * nl) m))))))
      else if use_node_head p then
        and_then (read_var ''node_loss'' node_loss) (\<lambda>nl.
        and_then (emit (Backward nl)) (\<lambda>_.
        ret (backward env nl m)))
      else if use_graph_head p then
        and_then (read_var ''graph_loss'' graph_loss) (\<lambda>gl.
        and_then (emit (Backward gl)) (\<lambda>_.
        ret (backward env gl m)))
      else ret m)"

definition iteration_record ::
  "loss_plan \<Rightarrow> real option \<Rightarrow> real option \<Rightarrow> logits option \<Rightarrow> logits option \<Rightarrow> batch
    \<Rightarrow> iteration_outputs" where
  "iteration_record p graph_loss node_loss graph_logits node_logits b =
     (case b of (graph, graph_labels, node_labels) \<Rightarrow>
        \<lparr> out_graph_loss = (if use_graph_head p then graph_loss else None),
          out_node_loss = (if use_node_head p then node_loss else None),
          out_graph_logits = graph_logits,
          out_node_logits = node_logits,
          out_graph_labels = graph_labels,
          out_node_labels = node_labels,
          out_node_associations = batch_num_nodes graph \<rparr>)"

definition train_iteration ::
  "'m train_env \<Rightarrow> loss_plan \<Rightarrow> real option \<Rightarrow> 'm \<Rightarrow> batch \<Rightarrow> ('m, 'm) prog" where
  "train_iteration env p clip m b =
     (case forward env Training m (fst b) of
        ((graph_logits, node_logits), m1) \<Rightarrow>
          and_then (compute_losses p graph_logits node_logits b) (\<lambda>(graph_loss, node_loss).
          and_then (backward_pass env p graph_loss node_loss m1) (\<lambda>m2.
          and_then
            (case clip of
               None \<Rightarrow> ret m2
             | Some c \<Rightarrow> and_then (emit (ClipGradNorm c)) (\<lambda>_. ret (clip_grad_norm env c m2)))
            (\<lambda>m3.
          and_then (emit OptimizerStep) (\<lambda>_.
          and_then
            (emit (AddIterationOutputs ''train''
               (iteration_record p graph_loss node_loss graph_logits node_logits b)))
            (\<lambda>_. ret (optimizer_step env m3)))))))"

fun train_batches ::
  "'m train_env \<Rightarrow> loss_plan \<Rightarrow> real option \<Rightarrow> sample list list \<Rightarrow> 'm \<Rightarrow> ('m, 'm) prog" where
  "train_batches env p clip [] m = ret m"
| "train_batches env p clip (samples # rest) m =
     and_then (call (collate samples)) (\<lambda>b.
     and_then (train_iteration env p clip m b) (\<lambda>m'.
     train_batches env p clip rest m'))"

subsection \<open>One validation iteration (lines 225-252)\<close>

definition validation_iteration ::
  "'m train_env \<Rightarrow> loss_plan \<Rightarrow> 'm \<Rightarrow> batch \<Rightarrow> ('m, 'm) prog" where
  "validation_iteration env p m b =
     (case forward env Evaluation m (fst b) of
        ((graph_logits, node_logits), m1) \<Rightarrow>
          and_then (compute_losses p graph_logits node_logits b) (\<lambda>(graph_loss, node_loss).
          and_then
            (emit (AddIterationOutputs ''valid''
               (iteration_record p graph_loss node_loss graph_logits node_logits b)))
            (\<lambda>_. ret m1)))"

fun validation_batches ::
  "'m train_env \<Rightarrow> loss_plan \<Rightarrow> sample list list \<Rightarrow> 'm \<Rightarrow> ('m, 'm) prog" where
  "validation_batches env p [] m = ret m"
| "validation_batches env p (samples # rest) m =
     and_then (call (collate samples)) (\<lambda>b.
     and_then (validation_iteration env p m b) (\<lambda>m'.
     validation_batches env p rest m'))"

subsection \<open>The epoch loop (lines 166-261)\<close>

text \<open>
  Lines 98-110: \<open>DataLoader(dataset, batch_size=..., shuffle=..., collate_fn=collate,
  num_workers=...)\<close>. The constructor refuses a negative number of workers and a batch
  size that is not positive.
\<close>

definition DataLoader ::
  "'m train_env \<Rightarrow> sample list \<Rightarrow> int \<Rightarrow> bool \<Rightarrow> int
    \<Rightarrow> py_error + (nat \<Rightarrow> sample list list)" where
  "DataLoader env ds bsize shuffle workers =
     (if workers < 0
      then Inl (ValueError ''num_workers option should be non-negative'')
      else if bsize \<le> 0
      then Inl (ValueError ''batch_size should be a positive integer value'')
      else data_loader env ds bsize shuffle workers)"

record loaders =
  training_loader :: "nat \<Rightarrow> sample list list"
  validation_loader :: "nat \<Rightarrow> sample list list"

record loop_params =
  lp_clip_gradient_norm :: "real option"
  lp_validation_frequency :: int
  lp_test :: bool

definition run_epoch ::
  "'m train_env \<Rightarrow> loop_params \<Rightarrow> loss_plan \<Rightarrow> loaders \<Rightarrow> nat \<Rightarrow> 'm \<Rightarrow> ('m, 'm) prog" where
  "run_epoch env lp p ld epoch m =
     and_then
       (train_batches env p (lp_clip_gradient_norm lp) (training_loader ld epoch) m)
       (\<lambda>m1.
     and_then (emit (TrainLogAndClear epoch)) (\<lambda>_.
     and_then (emit (LogMetric ''train.seconds_per_epoch'' epoch)) (\<lambda>_.
     and_then (call (py_mod (int epoch) (lp_validation_frequency lp))) (\<lambda>r.
     if r = 0 then
       and_then
         (validation_batches env p (validation_loader ld epoch) m1)
         (\<lambda>m2.
       and_then (emit (ValidLogAndClear epoch (if \<not> lp_test lp then Some m2 else None))) (\<lambda>_.
       and_then (emit (LogMetric ''valid.seconds_per_epoch'' epoch)) (\<lambda>_.
       ret m2)))
     else ret m1))))"

fun run_epochs ::
  "'m train_env \<Rightarrow> loop_params \<Rightarrow> loss_plan \<Rightarrow> loaders \<Rightarrow> nat list \<Rightarrow> 'm \<Rightarrow> ('m, 'm) prog" where
  "run_epochs env lp p ld [] m = ret m"
| "run_epochs env lp p ld (epoch # rest) m =
     and_then (run_epoch env lp p ld epoch m) (\<lambda>m'.
     run_epochs env lp p ld rest m')"

subsection \<open>train_graph_classifier (lines 44-261)\<close>

record train_args =
  dataset :: string
  model_config :: pydict
  data_config :: pydict
  metrics_config :: pydict
  batch_size :: int
  nr_epochs :: int
  num_workers :: int
  optimizer :: pydict
  loss :: pydict
  config_path :: string
  experiment_name :: string
  test :: bool
  validation_frequency :: int
  clip_gradient_norm :: "real option"
  experiment_tags :: "pydict option"
  seed :: "int option"

text \<open>Lines 72-91: the overfit switch of a dry run, and what is logged about the run.\<close>

definition effective_data_config :: "train_args \<Rightarrow> pydict" where
  "effective_data_config a =
     (if test a then AList.update ''overfit_test'' (PBool True) (data_config a)
      else data_config a)"

definition log_run :: "'m train_env \<Rightarrow> train_args \<Rightarrow> ('m, unit) prog" where
  "log_run env a =
     and_then (emit (SetExperiment (experiment_name a))) (\<lambda>_.
     and_then
       (case experiment_tags a of
          None \<Rightarrow> ret ()
        | Some tags \<Rightarrow> emit (SetTags tags))
       (\<lambda>_.
     and_then (emit (LogArtifact (config_path a) ''config'')) (\<lambda>_.
     and_then (emit LogSources) (\<lambda>_.
     emit (LogParameters (effective_data_config a) (model_config a) (batch_size a)
             (nr_epochs a) (optimizer a) (loss a) (fix_seeds env (seed a))
             (clip_gradient_norm a))))))"

text \<open>Lines 119-127: the model, and which heads its configuration enables.\<close>

definition configured_heads :: "pydict \<Rightarrow> py_error + (bool \<times> bool)" where
  "configured_heads mc =
     (case getitem mc ''graph_classifier_config'' of
        Inl e \<Rightarrow> Inl e
      | Inr gc \<Rightarrow>
          (case getitem mc ''node_classifier_config'' of
             Inl e \<Rightarrow> Inl e
           | Inr nc \<Rightarrow> Inr (gc \<noteq> PNone, nc \<noteq> PNone)))"

definition build_model :: "'m train_env \<Rightarrow> train_args \<Rightarrow> ('m, 'm \<times> bool \<times> bool) prog" where
  "build_model env a =
     and_then (call (WeakTissueClassifier env (model_config a))) (\<lambda>model.
     and_then (call (configured_heads (model_config a))) (\<lambda>(graph_head, node_head).
     and_then (emit (LogParam ''nr_parameters'' (PNum (real (nr_parameters env model))))) (\<lambda>_.
     ret (model, graph_head, node_head))))"

text \<open>Lines 141-160: the two metric loggers get the weights only when both heads are on.\<close>

definition make_loggers :: "train_args \<Rightarrow> dataset_module \<Rightarrow> loss_plan \<Rightarrow> ('m, unit) prog" where
  "make_loggers a dm p =
     and_then
       (emit (LoggerInit (metrics_config a) ''train'' (background_class dm) (nr_classes dm)
          (if use_graph_head p \<and> use_node_head p then node_loss_weight p else None)
          (if use_graph_head p \<and> use_node_head p then graph_loss_weight p else None)))
       (\<lambda>_.
     emit (LoggerInit (metrics_config a) ''valid'' (background_class dm) (nr_classes dm)
       (if use_graph_head p \<and> use_node_head p then node_loss_weight p else None)
       (if use_graph_head p \<and> use_node_head p then graph_loss_weight p else None)))"

text \<open>Lines 162-164: the optimizer class is looked up by name and built on the model.\<close>

definition make_optimizer :: "'m train_env \<Rightarrow> pydict \<Rightarrow> 'm \<Rightarrow> py_error + 'm" where
  "make_optimizer env opt model =
     (case getitem opt ''class'' of
        Inl e \<Rightarrow> Inl e
      | Inr (PStr class_name) \<Rightarrow>
          (case torch_optim env class_name of
             Inl e \<Rightarrow> Inl e
           | Inr optimizer_class \<Rightarrow>
               (case getitem opt ''params'' of
                  Inl e \<Rightarrow> Inl e
                | Inr params \<Rightarrow> optimizer_class model params))
      | Inr _ \<Rightarrow> Inl (TypeError ''attribute name must be string''))"

definition loop_params_of :: "train_args \<Rightarrow> loop_params" where
  "loop_params_of a =
     \<lparr> lp_clip_gradient_norm = clip_gradient_norm a,
       lp_validation_frequency = validation_frequency a,
       lp_test = test a \<rparr>"

text \<open>Lines 98-110: the training loader shuffles, the validation loader does not.\<close>

definition make_loaders :: "'m train_env \<Rightarrow> train_args \<Rightarrow> dataset_module \<Rightarrow> py_error + loaders" where
  "make_loaders env a dm =
     (case DataLoader env (training_dataset dm) (batch_size a) True (num_workers a) of
        Inl e \<Rightarrow> Inl e
      | Inr train \<Rightarrow>
          (case DataLoader env (validation_dataset dm) (batch_size a) False (num_workers a) of
             Inl e \<Rightarrow> Inl e
           | Inr valid \<Rightarrow> Inr \<lparr> training_loader = train, validation_loader = valid \<rparr>))"

text \<open>Everything after the run has been logged: lines 92-261.\<close>

definition train_body :: "'m train_env \<Rightarrow> train_args \<Rightarrow> pydict \<Rightarrow> ('m, 'm) prog" where
  "train_body env a loss_cfg =
     and_then (call (prepare_datasets env (dataset a) (effective_data_config a))) (\<lambda>dm.
     and_then (call (make_loaders env a dm)) (\<lambda>ld.
     and_then (emit (LogParam ''device'' (PStr (device_name env)))) (\<lambda>_.
     and_then (build_model env a) (\<lambda>(model, graph_head, node_head).
     and_then (call (loss_setup env loss_cfg graph_head node_head)) (\<lambda>p.
     and_then (make_loggers a dm p) (\<lambda>_.
     and_then (call (make_optimizer env (optimizer a) model)) (\<lambda>m0.
     run_epochs env (loop_params_of a) p ld [0..<nat (nr_epochs a)] m0)))))))"

definition train_graph_classifier :: "'m train_env \<Rightarrow> train_args \<Rightarrow> ('m, 'm) prog" where
  "train_graph_classifier env a =
     and_then (log_run env a) (\<lambda>_. train_body env a (loss a))"

subsection \<open>Reading a trace\<close>

text \<open>The calls that only a training or validation iteration makes.\<close>

fun iteration_event :: "'m event \<Rightarrow> bool" where
  "iteration_event (Backward v) = True"
| "iteration_event (ClipGradNorm c) = True"
| "iteration_event OptimizerStep = True"
| "iteration_event (AddIterationOutputs split r) = True"
| "iteration_event _ = False"

text \<open>The losses passed to \<open>backward\<close>, in order.\<close>

fun backward_calls :: "'m event list \<Rightarrow> real list" where
  "backward_calls [] = []"
| "backward_calls (Backward v # evs) = v # backward_calls evs"
| "backward_calls (_ # evs) = backward_calls evs"

text \<open>The epochs whose validation metrics were flushed, and the model each flush got.\<close>

fun validation_flushes :: "'m event list \<Rightarrow> (nat \<times> 'm option) list" where
  "validation_flushes [] = []"
| "validation_flushes (ValidLogAndClear epoch model # evs) =
     (epoch, model) # validation_flushes evs"
| "validation_flushes (_ # evs) = validation_flushes evs"

text \<open>
  What the validation path of the epoch loop does, in order: an iteration over a batch of
  the validation loader, the flush of the validation metrics of an epoch, and the logging
  of the epoch's validation time.
\<close>

datatype validation_step =
    ValidationIteration
  | ValidationFlush nat
  | ValidationTime nat

fun validation_path :: "'m event list \<Rightarrow> validation_step list" where
  "validation_path [] = []"
| "validation_path (AddIterationOutputs split r # evs) =
     (if split = ''valid'' then ValidationIteration # validation_path evs
      else validation_path evs)"
| "validation_path (ValidLogAndClear epoch model # evs) =
     ValidationFlush epoch # validation_path evs"
| "validation_path (LogMetric name epoch # evs) =
     (if name = ''valid.seconds_per_epoch'' then ValidationTime epoch # validation_path evs
      else validation_path evs)"
| "validation_path (_ # evs) = validation_path evs"

text \<open>The validation path of one due epoch over the given batches.\<close>

definition validation_epoch_steps :: "sample list list \<Rightarrow> nat \<Rightarrow> validation_step list" where
  "validation_epoch_steps batches epoch =
     replicate (length batches) ValidationIteration
     @ [ValidationFlush epoch, ValidationTime epoch]"

text \<open>
  An event with the 'node_weight' entry removed from the loss configuration that the
  run's parameter log was given.
\<close>

fun drop_logged_node_weight :: "'m event \<Rightarrow> 'm event" where
  "drop_logged_node_weight (LogParameters d mc bs ep opt l sd clip) =
     LogParameters d mc bs ep opt (AList.delete ''node_weight'' l) sd clip"
| "drop_logged_node_weight ev = ev"

text \<open>
  What a validation flush must have been given: no model in a dry run, the model otherwise.
\<close>

definition flush_model_ok :: "bool \<Rightarrow> nat \<times> 'm option \<Rightarrow> bool" where
  "flush_model_ok dry_run f = (if dry_run then snd f = None else snd f \<noteq> None)"

subsection \<open>An example run\<close>

text \<open>
  A small environment in which every collaborator succeeds: the engine state counts the
  optimizer steps, each loader pass is one batch of the two samples, the graph criterion
  returns 2 and the node criterion 4. The arguments ask for three epochs with validation
  every second epoch.
\<close>

definition example_samples :: "sample list" where
  "example_samples =
     [(\<lparr>number_of_nodes = 2, edge_list = [(0, 1)]\<rparr>, [1, 0], [3, 4]),
      (\<lparr>number_of_nodes = 1, edge_list = []\<rparr>, [0, 1], [5])]"

definition example_criterion :: criterion where
  "example_criterion args = (case args of GraphArgs lg lb \<Rightarrow> 2 | NodeArgs lg lb assoc \<Rightarrow> 4)"

definition example_env :: "nat train_env" where
  "example_env =
     \<lparr> fix_seeds = (\<lambda>s. case s of None \<Rightarrow> 0 | Some n \<Rightarrow> n),
       prepare_datasets = (\<lambda>name cfg. Inr \<lparr> background_class = 4, nr_classes = 2,
          training_dataset = example_samples, validation_dataset = example_samples \<rparr>),
       data_loader = (\<lambda>ds bsize shuffle workers. Inr (\<lambda>pass. [ds])),
       device_name = ''CPU'',
       WeakTissueClassifier = (\<lambda>mc. Inr 0),
       nr_parameters = (\<lambda>m. 10),
       losses_module = (\<lambda>name. Inr (\<lambda>params. Inr example_criterion)),
       torch_optim = (\<lambda>name. Inr (\<lambda>m params. Inr m)),
       forward = (\<lambda>md m g. ((None, None), m)),
       backward = (\<lambda>v m. m),
       clip_grad_norm = (\<lambda>c m. m),
       optimizer_step = (\<lambda>m. Suc m) \<rparr>"

definition example_args :: "pyval \<Rightarrow> pyval \<Rightarrow> pydict \<Rightarrow> bool \<Rightarrow> train_args" where
  "example_args graph_cfg node_cfg loss_cfg dry_run =
     \<lparr> dataset = ''eth'',
       model_config = [(''gnn_config'', PDict []),
                       (''graph_classifier_config'', graph_cfg),
                       (''node_classifier_config'', node_cfg)],
       data_config = [],
       metrics_config = [],
       batch_size = 2,
       nr_epochs = 3,
       num_workers = 0,
       optimizer = [(''class'', PStr ''Adam''), (''params'', PDict [])],
       loss = loss_cfg,
       config_path = ''default.yml'',
       experiment_name = ''demo'',
       test = dry_run,
       validation_frequency = 2,
       clip_gradient_norm = None,
       experiment_tags = None,
       seed = None \<rparr>"

definition example_loss :: "pydict" where
  "example_loss =
     [(''graph'', PDict [(''class'', PStr ''GraphLoss'')]),
      (''node'', PDict [(''class'', PStr ''NodeLoss'')])]"

section \<open>Properties of collate\<close>

lemma same_size_const:
  "list_all (\<lambda>t. length t = c) ts \<Longrightarrow> same_size ts"
  by (cases ts) (auto simp: same_size_def list_all_iff)

lemma length_concat_sum:
  "length (concat xss) = sum_list (map length xss)"
  by (induction xss) auto

lemma collate_value:
  assumes "samples \<noteq> []"
    and "list_all (\<lambda>s. length (sample_graph_label s) = c) samples"
  shows "collate samples =
     Inr (\<lparr> total_nodes = sum_list (map (number_of_nodes \<circ> sample_graph) samples),
             batched_edges = merge_edges 0 (map sample_graph samples),
             batch_num_nodes = map (number_of_nodes \<circ> sample_graph) samples \<rparr>,
          map sample_graph_label samples,
          concat (map sample_node_labels samples))"
proof -
  have "list_all (\<lambda>t. length t = c) (map sample_graph_label samples)"
    using assms(2) by (simp add: list_all_iff)
  then have "same_size (map sample_graph_label samples)"
    by (rule same_size_const)
  with assms(1) show ?thesis
    by (simp add: collate_def unpack_samples_def dgl_batch_def torch_stack_def
        torch_cat_def)
qed

text \<open>
  Claim C2. For a non-empty list of N samples whose graph-label vectors all have length
  C, collate returns a batch: the stacked label matrix has N rows, row i being the label
  vector of sample i; the node-label vector is the concatenation of the samples'
  node-label vectors in input order, so its length is the sum of their lengths; and the
  merged graph lists the samples' node counts in the same order.
\<close>

theorem collate_stacks_and_concatenates:
  assumes "samples \<noteq> []"
    and "list_all (\<lambda>s. length (sample_graph_label s) = c) samples"
  shows "\<exists>g gl nl. collate samples = Inr (g, gl, nl)
     \<and> length gl = length samples
     \<and> gl = map sample_graph_label samples
     \<and> nl = concat (map sample_node_labels samples)
     \<and> length nl = sum_list (map (length \<circ> sample_node_labels) samples)
     \<and> batch_num_nodes g = map (number_of_nodes \<circ> sample_graph) samples"
  using collate_value [OF assms] by (simp add: length_concat_sum comp_def)

theorem collate_stacks_and_concatenates_witness:
  "\<exists>g gl nl.
     collate [(\<lparr>number_of_nodes = 2, edge_list = [(0, 1)]\<rparr>, [1, 0], [3, 4]),
              (\<lparr>number_of_nodes = 1, edge_list = []\<rparr>, [0, 1], [5])] = Inr (g, gl, nl)
     \<and> gl = [[1, 0], [0, 1]] \<and> nl = [3, 4, 5] \<and> batch_num_nodes g = [2, 1]"
  using collate_stacks_and_concatenates
    [of "[(\<lparr>number_of_nodes = 2, edge_list = [(0, 1)]\<rparr>, [1, 0], [3, 4]),
          (\<lparr>number_of_nodes = 1, edge_list = []\<rparr>, [0, 1], [5])]" 2]
  by (auto simp: sample_graph_label_def sample_node_labels_def sample_graph_def)

text \<open>
  Claim C10. On the empty list of samples collate raises: the unpacking of the transposed
  empty sequence into three names fails, and no batch is returned.
\<close>

theorem collate_empty_raises:
  "collate [] = Inl (ValueError ''not enough values to unpack (expected 3, got 0)'')"
  by (simp add: collate_def unpack_samples_def)

section \<open>Properties of the training script\<close>

subsection \<open>The loss passed to backward\<close>

lemma and_then_ret: "and_then (ret x) f = f x"
  by (simp add: and_then_def ret_def split: prod.splits)

lemma and_then_call_Inr: "and_then (call (Inr x)) f = f x"
  by (simp add: and_then_def call_def split: prod.splits)

lemma and_then_call_Inl: "and_then (call (Inl e)) f = (Inl e, [])"
  by (simp add: and_then_def call_def)

lemma and_then_emit: "and_then (emit ev) f = (case f () of (r, evs) \<Rightarrow> (r, ev # evs))"
  by (simp add: and_then_def emit_def)

lemma and_then_pair_Inr: "and_then (Inr x, evs) f = (case f x of (r, evs') \<Rightarrow> (r, evs @ evs'))"
  by (simp add: and_then_def)

lemma and_then_pair_Inl: "and_then (Inl e, evs) f = (Inl e, evs)"
  by (simp add: and_then_def)

lemma fst_and_then:
  "fst (and_then m f) = (case fst m of Inl e \<Rightarrow> Inl e | Inr x \<Rightarrow> fst (f x))"
  by (simp add: and_then_def split: prod.splits sum.splits)

lemma snd_and_then:
  "snd (and_then m f) = (case fst m of Inl e \<Rightarrow> snd m | Inr x \<Rightarrow> snd m @ snd (f x))"
  by (simp add: and_then_def split: prod.splits sum.splits)

lemma read_var_Some: "read_var name (Some x) = ret x"
  by (simp add: read_var_def)

lemma map_sum_Some_Inr:
  "map_sum id Some x = Inr y \<longleftrightarrow> (\<exists>c. x = Inr c \<and> y = Some c)"
  by (cases x) auto

lemma loss_setup_both:
  assumes "loss_setup env l True True = Inr p"
  shows "\<exists>cg cn w. get_loss env l ''graph'' = Inr cg \<and> get_loss env l ''node'' = Inr cn
     \<and> as_number (get_or l ''node_weight'' (PNum 0.5)) = Some w \<and> 0 \<le> w \<and> w \<le> 1
     \<and> p = \<lparr> use_graph_head = True, use_node_head = True, graph_criterion = Some cg,
             node_criterion = Some cn, node_loss_weight = Some w,
             graph_loss_weight = Some (1 - w) \<rparr>"
  using assms
  by (auto simp: loss_setup_def Let_def map_sum_Some_Inr
      split: sum.splits option.splits if_splits)

lemma loss_setup_graph_only:
  assumes "loss_setup env l True False = Inr p"
  shows "\<exists>cg. get_loss env l ''graph'' = Inr cg
     \<and> p = \<lparr> use_graph_head = True, use_node_head = False, graph_criterion = Some cg,
             node_criterion = None, node_loss_weight = None, graph_loss_weight = None \<rparr>"
  using assms
  by (auto simp: loss_setup_def Let_def map_sum_Some_Inr
      split: sum.splits option.splits if_splits)

lemma loss_setup_node_only:
  assumes "loss_setup env l False True = Inr p"
  shows "\<exists>cn. get_loss env l ''node'' = Inr cn
     \<and> p = \<lparr> use_graph_head = False, use_node_head = True, graph_criterion = None,
             node_criterion = Some cn, node_loss_weight = None, graph_loss_weight = None \<rparr>"
  using assms
  by (auto simp: loss_setup_def Let_def map_sum_Some_Inr
      split: sum.splits option.splits if_splits)

lemma loss_setup_neither:
  "loss_setup env l False False =
     Inr \<lparr> use_graph_head = False, use_node_head = False, graph_criterion = None,
           node_criterion = None, node_loss_weight = None, graph_loss_weight = None \<rparr>"
  by (simp add: loss_setup_def)

lemmas prog_simps = ret_def call_def emit_def read_var_def and_then_pair_Inr
  and_then_pair_Inl

lemma train_iteration_both:
  assumes "p = \<lparr> use_graph_head = True, use_node_head = True, graph_criterion = Some cg,
             node_criterion = Some cn, node_loss_weight = Some w,
             graph_loss_weight = Some gw \<rparr>"
    and "forward env Training m graph = ((graph_logits, node_logits), m1)"
  shows "backward_calls (snd (train_iteration env p clip m (graph, graph_labels, node_labels)))
     = [gw * cg (GraphArgs graph_logits graph_labels)
        + w * cn (NodeArgs node_logits node_labels (batch_num_nodes graph))]"
  using assms
  by (cases clip)
     (simp_all add: train_iteration_def compute_losses_def backward_pass_def prog_simps)

lemma train_iteration_graph_only:
  assumes "p = \<lparr> use_graph_head = True, use_node_head = False, graph_criterion = Some cg,
             node_criterion = None, node_loss_weight = None, graph_loss_weight = None \<rparr>"
    and "forward env Training m graph = ((graph_logits, node_logits), m1)"
  shows "backward_calls (snd (train_iteration env p clip m (graph, graph_labels, node_labels)))
     = [cg (GraphArgs graph_logits graph_labels)]"
  using assms
  by (cases clip)
     (simp_all add: train_iteration_def compute_losses_def backward_pass_def prog_simps)

lemma train_iteration_node_only:
  assumes "p = \<lparr> use_graph_head = False, use_node_head = True, graph_criterion = None,
             node_criterion = Some cn, node_loss_weight = None, graph_loss_weight = None \<rparr>"
    and "forward env Training m graph = ((graph_logits, node_logits), m1)"
  shows "backward_calls (snd (train_iteration env p clip m (graph, graph_labels, node_labels)))
     = [cn (NodeArgs node_logits node_labels (batch_num_nodes graph))]"
  using assms
  by (cases clip)
     (simp_all add: train_iteration_def compute_losses_def backward_pass_def prog_simps)

text \<open>
  Claim C1. In a training iteration whose loss section ran with both heads on, the loss
  passed to backward is graph_loss_weight * graph_loss + node_loss_weight * node_loss with
  graph_loss_weight = 1 - node_loss_weight, the two losses being what the criteria return
  on the batch; with exactly one head on, it is that head's loss.
\<close>

theorem combined_loss_passed_to_backward:
  assumes "loss_setup env l graph_head node_head = Inr p"
    and "forward env Training m graph = ((graph_logits, node_logits), m1)"
  shows "\<exists>gl nl.
      (graph_head \<longrightarrow> (\<exists>c. graph_criterion p = Some c \<and> gl = c (GraphArgs graph_logits graph_labels)))
    \<and> (node_head \<longrightarrow> (\<exists>c. node_criterion p = Some c
          \<and> nl = c (NodeArgs node_logits node_labels (batch_num_nodes graph))))
    \<and> (graph_head \<and> node_head \<longrightarrow>
         (\<exists>w. node_loss_weight p = Some w \<and> graph_loss_weight p = Some (1 - w)
            \<and> backward_calls (snd (train_iteration env p clip m (graph, graph_labels, node_labels)))
                = [(1 - w) * gl + w * nl]))
    \<and> (graph_head \<and> \<not> node_head \<longrightarrow>
         backward_calls (snd (train_iteration env p clip m (graph, graph_labels, node_labels))) = [gl])
    \<and> (\<not> graph_head \<and> node_head \<longrightarrow>
         backward_calls (snd (train_iteration env p clip m (graph, graph_labels, node_labels))) = [nl])"
proof (cases graph_head; cases node_head)
  assume gh: graph_head and nh: node_head
  from assms(1) gh nh have "loss_setup env l True True = Inr p" by simp
  then obtain cg cn w where
    p: "p = \<lparr> use_graph_head = True, use_node_head = True, graph_criterion = Some cg,
             node_criterion = Some cn, node_loss_weight = Some w,
             graph_loss_weight = Some (1 - w) \<rparr>"
    using loss_setup_both by blast
  show ?thesis
    using train_iteration_both [OF p assms(2)] gh nh p by simp
next
  assume gh: graph_head and nh: "\<not> node_head"
  from assms(1) gh nh have "loss_setup env l True False = Inr p" by simp
  then obtain cg where
    p: "p = \<lparr> use_graph_head = True, use_node_head = False, graph_criterion = Some cg,
             node_criterion = None, node_loss_weight = None, graph_loss_weight = None \<rparr>"
    using loss_setup_graph_only by blast
  show ?thesis
    using train_iteration_graph_only [OF p assms(2)] gh nh p by simp
next
  assume gh: "\<not> graph_head" and nh: node_head
  from assms(1) gh nh have "loss_setup env l False True = Inr p" by simp
  then obtain cn where
    p: "p = \<lparr> use_graph_head = False, use_node_head = True, graph_criterion = None,
             node_criterion = Some cn, node_loss_weight = None, graph_loss_weight = None \<rparr>"
    using loss_setup_node_only by blast
  show ?thesis
    using train_iteration_node_only [OF p assms(2)] gh nh p by simp
next
  assume "\<not> graph_head" and "\<not> node_head"
  then show ?thesis by simp
qed

subsection \<open>When validation runs\<close>

lemma validation_flushes_append:
  "validation_flushes (xs @ ys) = validation_flushes xs @ validation_flushes ys"
  by (induction xs rule: validation_flushes.induct) simp_all

lemma backward_calls_append:
  "backward_calls (xs @ ys) = backward_calls xs @ backward_calls ys"
  by (induction xs rule: backward_calls.induct) simp_all

lemma fst_call: "fst (call r) = r" and snd_call: "snd (call r) = []"
  by (simp_all add: call_def)

lemma fst_ret: "fst (ret x) = Inr x" and snd_ret: "snd (ret x) = []"
  by (simp_all add: ret_def)

lemma fst_emit: "fst (emit ev) = Inr ()" and snd_emit: "snd (emit ev) = [ev]"
  by (simp_all add: emit_def)

lemma snd_read_var: "snd (read_var name v) = []"
  by (simp add: read_var_def call_def ret_def split: option.splits)

lemmas prog_sel = fst_and_then snd_and_then fst_call snd_call fst_ret snd_ret fst_emit
  snd_emit snd_read_var

lemma snd_compute_losses: "snd (compute_losses p gl nl b) = []"
  by (cases b) (simp add: compute_losses_def prog_sel split: sum.splits prod.splits)

lemma flushes_train_iteration:
  "validation_flushes (snd (train_iteration env p clip m b)) = []"
  by (simp add: train_iteration_def backward_pass_def prog_sel snd_compute_losses
      validation_flushes_append split: sum.splits prod.splits option.splits)

lemma flushes_train_batches:
  "validation_flushes (snd (train_batches env p clip bs m)) = []"
  by (induction bs arbitrary: m)
     (simp_all add: prog_sel flushes_train_iteration validation_flushes_append
        split: sum.splits)

lemma flushes_validation_iteration:
  "validation_flushes (snd (validation_iteration env p m b)) = []"
  by (simp add: validation_iteration_def prog_sel snd_compute_losses
      validation_flushes_append split: sum.splits prod.splits option.splits)

lemma flushes_validation_batches:
  "validation_flushes (snd (validation_batches env p bs m)) = []"
  by (induction bs arbitrary: m)
     (simp_all add: prog_sel flushes_validation_iteration validation_flushes_append
        split: sum.splits)

lemma flushes_run_epoch:
  assumes "fst (run_epoch env lp p dm epoch m) = Inr m'"
  shows "map fst (validation_flushes (snd (run_epoch env lp p dm epoch m)))
     = (if int epoch mod lp_validation_frequency lp = 0 then [epoch] else [])"
  using assms
  by (auto simp: run_epoch_def prog_sel py_mod_def flushes_train_batches
      flushes_validation_batches validation_flushes_append
      split: sum.splits if_splits)

lemma flushes_run_epochs:
  assumes "fst (run_epochs env lp p dm es m) = Inr m'"
  shows "map fst (validation_flushes (snd (run_epochs env lp p dm es m)))
     = filter (\<lambda>epoch. int epoch mod lp_validation_frequency lp = 0) es"
  using assms
proof (induction es arbitrary: m)
  case Nil
  then show ?case by (simp add: prog_sel)
next
  case (Cons epoch es)
  from Cons.prems obtain m1 where
    e: "fst (run_epoch env lp p dm epoch m) = Inr m1"
    and r: "fst (run_epochs env lp p dm es m1) = Inr m'"
    by (auto simp: prog_sel split: sum.splits)
  show ?case
    using flushes_run_epoch [OF e] Cons.IH [OF r] e
    by (simp add: prog_sel validation_flushes_append)
qed

lemma fst_log_run: "fst (log_run env a) = Inr ()"
  by (simp add: log_run_def prog_sel split: option.splits)

lemma snd_log_run:
  "snd (log_run env a) =
     SetExperiment (experiment_name a) #
     (case experiment_tags a of None \<Rightarrow> [] | Some tags \<Rightarrow> [SetTags tags]) @
     [LogArtifact (config_path a) ''config'', LogSources,
      LogParameters (effective_data_config a) (model_config a) (batch_size a)
        (nr_epochs a) (optimizer a) (loss a) (fix_seeds env (seed a))
        (clip_gradient_norm a)]"
  by (simp add: log_run_def prog_sel split: option.splits)

lemma flushes_log_run: "validation_flushes (snd (log_run env a)) = []"
  by (simp add: snd_log_run validation_flushes_append split: option.splits)

lemma flushes_build_model: "validation_flushes (snd (build_model env a)) = []"
  by (simp add: build_model_def prog_sel split: sum.splits prod.splits)

lemma flushes_make_loggers: "validation_flushes (snd (make_loggers a dm p)) = []"
  by (simp add: make_loggers_def prog_sel)

lemma fst_make_loggers: "fst (make_loggers a dm p) = Inr ()"
  by (simp add: make_loggers_def prog_sel)

lemma completed_run:
  assumes "fst (train_graph_classifier env a) = Inr m"
  shows "\<exists>dm p m0.
      fst (run_epochs env (loop_params_of a) p dm [0..<nat (nr_epochs a)] m0) = Inr m
    \<and> validation_flushes (snd (train_graph_classifier env a))
        = validation_flushes
            (snd (run_epochs env (loop_params_of a) p dm [0..<nat (nr_epochs a)] m0))"
  using assms
  apply (auto simp: train_graph_classifier_def train_body_def prog_sel fst_log_run
      flushes_log_run flushes_build_model flushes_make_loggers fst_make_loggers
      validation_flushes_append split: sum.splits prod.splits)
  apply blast
  done

lemma validation_path_append:
  "validation_path (xs @ ys) = validation_path xs @ validation_path ys"
  by (induction xs rule: validation_path.induct) simp_all

lemma path_train_iteration:
  "validation_path (snd (train_iteration env p clip m b)) = []"
  by (simp add: train_iteration_def backward_pass_def prog_sel snd_compute_losses
      validation_path_append split: sum.splits prod.splits option.splits)

lemma path_train_batches:
  "validation_path (snd (train_batches env p clip bs m)) = []"
  by (induction bs arbitrary: m)
     (simp_all add: prog_sel path_train_iteration validation_path_append
        split: sum.splits)

lemma path_validation_iteration:
  assumes "fst (validation_iteration env p m b) = Inr m'"
  shows "validation_path (snd (validation_iteration env p m b)) = [ValidationIteration]"
  using assms
  by (auto simp: validation_iteration_def prog_sel snd_compute_losses
      validation_path_append split: sum.splits prod.splits)

lemma path_validation_batches:
  assumes "fst (validation_batches env p bs m) = Inr m'"
  shows "validation_path (snd (validation_batches env p bs m))
     = replicate (length bs) ValidationIteration"
  using assms
proof (induction bs arbitrary: m)
  case Nil
  then show ?case by (simp add: prog_sel)
next
  case (Cons samples bs)
  from Cons.prems obtain b m1 where
    c: "collate samples = Inr b"
    and i: "fst (validation_iteration env p m b) = Inr m1"
    and r: "fst (validation_batches env p bs m1) = Inr m'"
    by (auto simp: prog_sel split: sum.splits)
  show ?case
    using path_validation_iteration [OF i] Cons.IH [OF r] c i
    by (simp add: prog_sel validation_path_append)
qed

lemma path_run_epoch_skipped:
  assumes "int epoch mod lp_validation_frequency lp \<noteq> 0"
  shows "validation_path (snd (run_epoch env lp p ld epoch m)) = []"
  using assms
  by (auto simp: run_epoch_def prog_sel py_mod_def path_train_batches
      validation_path_append split: sum.splits if_splits)

lemma path_run_epoch_due:
  assumes "fst (run_epoch env lp p ld epoch m) = Inr m'"
    and "lp_validation_frequency lp \<noteq> 0"
    and "int epoch mod lp_validation_frequency lp = 0"
  shows "validation_path (snd (run_epoch env lp p ld epoch m))
     = validation_epoch_steps (validation_loader ld epoch) epoch"
  using assms
  by (auto simp: run_epoch_def prog_sel py_mod_def path_train_batches
      path_validation_batches validation_path_append validation_epoch_steps_def
      split: sum.splits if_splits)

lemma path_run_epochs:
  assumes "fst (run_epochs env lp p ld es m) = Inr m'"
    and "lp_validation_frequency lp \<noteq> 0"
  shows "validation_path (snd (run_epochs env lp p ld es m))
     = concat (map (\<lambda>epoch. validation_epoch_steps (validation_loader ld epoch) epoch)
         (filter (\<lambda>epoch. int epoch mod lp_validation_frequency lp = 0) es))"
  using assms(1)
proof (induction es arbitrary: m)
  case Nil
  then show ?case by (simp add: prog_sel)
next
  case (Cons epoch es)
  from Cons.prems obtain m1 where
    e: "fst (run_epoch env lp p ld epoch m) = Inr m1"
    and r: "fst (run_epochs env lp p ld es m1) = Inr m'"
    by (auto simp: prog_sel split: sum.splits)
  show ?case
  proof (cases "int epoch mod lp_validation_frequency lp = 0")
    case True
    then show ?thesis
      using path_run_epoch_due [OF e assms(2)] Cons.IH [OF r] e
      by (simp add: prog_sel validation_path_append)
  next
    case False
    then show ?thesis
      using path_run_epoch_skipped [of epoch lp env p ld m] Cons.IH [OF r] e
      by (simp add: prog_sel validation_path_append)
  qed
qed

lemma path_log_run: "validation_path (snd (log_run env a)) = []"
  by (simp add: snd_log_run validation_path_append split: option.splits)

lemma path_build_model: "validation_path (snd (build_model env a)) = []"
  by (simp add: build_model_def prog_sel split: sum.splits prod.splits)

lemma path_make_loggers: "validation_path (snd (make_loggers a dm p)) = []"
  by (simp add: make_loggers_def prog_sel)

lemma path_completed_run:
  assumes "fst (train_graph_classifier env a) = Inr m"
    and "prepare_datasets env (dataset a) (effective_data_config a) = Inr dm"
    and "make_loaders env a dm = Inr ld"
  shows "\<exists>p m0.
      fst (run_epochs env (loop_params_of a) p ld [0..<nat (nr_epochs a)] m0) = Inr m
    \<and> validation_path (snd (train_graph_classifier env a))
        = validation_path
            (snd (run_epochs env (loop_params_of a) p ld [0..<nat (nr_epochs a)] m0))"
  using assms
  apply (auto simp: train_graph_classifier_def train_body_def prog_sel fst_log_run
      path_log_run path_build_model path_make_loggers fst_make_loggers
      validation_path_append split: sum.splits prod.splits)
  apply blast
  done

text \<open>
  Claim C5. With a validation frequency f of at least 1, the validation path runs in
  epoch e exactly when e mod f = 0. In an epoch that is not due, nothing of the path
  happens: no validation iteration, no flush, no validation time. In a due epoch that
  completes, the path is one validation iteration per batch of the validation loader,
  then the flush and the time of that epoch. So a run that completes has gone through the
  path once in each due epoch of its range and in no other: in every epoch for f = 1, in
  epochs 0, 2, 4, ... for f = 2.
\<close>

theorem validation_runs_on_due_epochs:
  assumes "1 \<le> validation_frequency a"
  shows "(int epoch mod validation_frequency a \<noteq> 0 \<longrightarrow>
          validation_path (snd (run_epoch env (loop_params_of a) p ld epoch m)) = [])
   \<and> (int epoch mod validation_frequency a = 0
        \<and> fst (run_epoch env (loop_params_of a) p ld epoch m) = Inr m' \<longrightarrow>
          validation_path (snd (run_epoch env (loop_params_of a) p ld epoch m))
            = validation_epoch_steps (validation_loader ld epoch) epoch)
   \<and> (fst (train_graph_classifier env a) = Inr mf
        \<and> prepare_datasets env (dataset a) (effective_data_config a) = Inr dm
        \<and> make_loaders env a dm = Inr ld \<longrightarrow>
          validation_path (snd (train_graph_classifier env a))
            = concat (map (\<lambda>e. validation_epoch_steps (validation_loader ld e) e)
                (filter (\<lambda>e. int e mod validation_frequency a = 0)
                   [0..<nat (nr_epochs a)])))"
proof -
  have f: "lp_validation_frequency (loop_params_of a) = validation_frequency a"
    by (simp add: loop_params_of_def)
  have nz: "lp_validation_frequency (loop_params_of a) \<noteq> 0"
    using assms f by simp
  have skipped: "validation_path (snd (run_epoch env (loop_params_of a) p ld epoch m)) = []"
    if "int epoch mod validation_frequency a \<noteq> 0"
    using that path_run_epoch_skipped [of epoch "loop_params_of a" env p ld m] f by simp
  have due: "validation_path (snd (run_epoch env (loop_params_of a) p ld epoch m))
            = validation_epoch_steps (validation_loader ld epoch) epoch"
    if "int epoch mod validation_frequency a = 0
        \<and> fst (run_epoch env (loop_params_of a) p ld epoch m) = Inr m'"
    using that path_run_epoch_due [of env "loop_params_of a" p ld epoch m m'] nz f by simp
  have run: "validation_path (snd (train_graph_classifier env a))
            = concat (map (\<lambda>e. validation_epoch_steps (validation_loader ld e) e)
                (filter (\<lambda>e. int e mod validation_frequency a = 0)
                   [0..<nat (nr_epochs a)]))"
    if c: "fst (train_graph_classifier env a) = Inr mf
        \<and> prepare_datasets env (dataset a) (effective_data_config a) = Inr dm
        \<and> make_loaders env a dm = Inr ld"
  proof -
    from c path_completed_run [of env a mf dm ld] obtain q m0 where
      r: "fst (run_epochs env (loop_params_of a) q ld [0..<nat (nr_epochs a)] m0) = Inr mf"
      and e: "validation_path (snd (train_graph_classifier env a))
        = validation_path
            (snd (run_epochs env (loop_params_of a) q ld [0..<nat (nr_epochs a)] m0))"
      by blast
    show ?thesis
      using path_run_epochs [OF r nz] e f by simp
  qed
  show ?thesis
    using skipped due run by blast
qed

subsection \<open>The model handed to the validation flush\<close>

lemma flush_models_run_epoch:
  "list_all (flush_model_ok (lp_test lp))
     (validation_flushes (snd (run_epoch env lp p dm epoch m)))"
  by (auto simp: run_epoch_def prog_sel py_mod_def flushes_train_batches
      flushes_validation_batches validation_flushes_append flush_model_ok_def
      split: sum.splits if_splits)

lemma flush_models_run_epochs:
  "list_all (flush_model_ok (lp_test lp))
     (validation_flushes (snd (run_epochs env lp p dm es m)))"
  by (induction es arbitrary: m)
     (simp_all add: prog_sel validation_flushes_append flush_models_run_epoch
        split: sum.splits)

lemma flushes_run:
  "validation_flushes (snd (train_graph_classifier env a)) = []
   \<or> (\<exists>dm p m0. validation_flushes (snd (train_graph_classifier env a))
        = validation_flushes
            (snd (run_epochs env (loop_params_of a) p dm [0..<nat (nr_epochs a)] m0)))"
  apply (auto simp: train_graph_classifier_def train_body_def prog_sel fst_log_run
      flushes_log_run flushes_build_model flushes_make_loggers fst_make_loggers
      validation_flushes_append split: sum.splits prod.splits)
  done

lemma flush_models_run:
  "list_all (flush_model_ok (test a))
     (validation_flushes (snd (train_graph_classifier env a)))"
proof -
  have t: "lp_test (loop_params_of a) = test a"
    by (simp add: loop_params_of_def)
  show ?thesis
    using flushes_run [of env a] flush_models_run_epochs [of "loop_params_of a" env]
    by (auto simp: t)
qed

text \<open>
  Claim C6. In a dry run (the test flag set) every validation flush gets no model, so no
  checkpoint is written, and without the flag every flush gets the model. The flag does
  not change when validation metrics are flushed: a run that completes flushes them in
  each epoch where validation is due.
\<close>

theorem dry_run_suppresses_checkpoint:
  "list_all (flush_model_ok (test a))
     (validation_flushes (snd (train_graph_classifier env a)))
   \<and> (fst (train_graph_classifier env a) = Inr m \<and> validation_frequency a \<noteq> 0 \<longrightarrow>
        map fst (validation_flushes (snd (train_graph_classifier env a)))
          = filter (\<lambda>epoch. int epoch mod validation_frequency a = 0)
              [0..<nat (nr_epochs a)])"
proof -
  have "map fst (validation_flushes (snd (train_graph_classifier env a)))
          = filter (\<lambda>epoch. int epoch mod validation_frequency a = 0)
              [0..<nat (nr_epochs a)]"
    if c: "fst (train_graph_classifier env a) = Inr m"
  proof -
    from completed_run [OF c] obtain dm p m0 where
      r: "fst (run_epochs env (loop_params_of a) p dm [0..<nat (nr_epochs a)] m0) = Inr m"
      and f: "validation_flushes (snd (train_graph_classifier env a))
          = validation_flushes
              (snd (run_epochs env (loop_params_of a) p dm [0..<nat (nr_epochs a)] m0))"
      by blast
    show ?thesis
      using flushes_run_epochs [OF r] f by (simp add: loop_params_of_def)
  qed
  then show ?thesis
    using flush_models_run [of a env] by simp
qed

subsection \<open>Failing fast on the node weight\<close>

lemma no_iteration_log_run: "\<not> list_ex iteration_event (snd (log_run env a))"
  by (simp add: snd_log_run split: option.splits)

lemma no_iteration_build_model: "\<not> list_ex iteration_event (snd (build_model env a))"
  by (simp add: build_model_def prog_sel split: sum.splits prod.splits)

lemma fst_build_model:
  "fst (build_model env a) = Inr (model, gh, nh) \<Longrightarrow>
     configured_heads (model_config a) = Inr (gh, nh)"
  by (auto simp: build_model_def prog_sel split: sum.splits prod.splits)

lemma loss_setup_rejects:
  assumes "\<not> (\<exists>w. as_number (get_or l ''node_weight'' (PNum 0.5)) = Some w \<and> 0 \<le> w \<and> w \<le> 1)"
  shows "\<exists>e. loss_setup env l True True = Inl e"
  using assms
  by (auto simp: loss_setup_def Let_def split: sum.splits option.splits)

text \<open>
  Claim C4. node_loss_weight is the variable that the loss section assigns when both heads
  are on: the 'node_weight' entry of the loss configuration, or 0.5. Whenever it is not a
  number in [0,1], the run raises, and it has made none of the calls of a training or
  validation iteration; so a run that executes an iteration with both heads on has its
  weight in [0,1].
\<close>

theorem node_weight_out_of_range_fails_fast:
  assumes "configured_heads (model_config a) = Inr (True, True)"
    and "\<not> (\<exists>w. as_number (get_or (loss a) ''node_weight'' (PNum 0.5)) = Some w
            \<and> 0 \<le> w \<and> w \<le> 1)"
  shows "(\<exists>e. fst (train_graph_classifier env a) = Inl e)
     \<and> \<not> list_ex iteration_event (snd (train_graph_classifier env a))"
proof -
  from loss_setup_rejects [OF assms(2)] obtain e where
    e: "loss_setup env (loss a) True True = Inl e" by blast
  have h: "fst (build_model env a) = Inr (model, gh, nh) \<Longrightarrow> gh \<and> nh" for model gh nh
    using fst_build_model [of env a model gh nh] assms(1) by simp
  show ?thesis
    using e
    by (auto simp: train_graph_classifier_def train_body_def prog_sel fst_log_run
        no_iteration_log_run no_iteration_build_model
        split: sum.splits prod.splits dest!: h)
qed

subsection \<open>A run with neither head\<close>

lemma backward_no_heads_iteration:
  assumes "\<not> use_graph_head p" and "\<not> use_node_head p"
  shows "backward_calls (snd (train_iteration env p clip m b)) = []"
  using assms
  by (simp add: train_iteration_def backward_pass_def prog_sel snd_compute_losses
      backward_calls_append split: sum.splits prod.splits option.splits)

lemma backward_no_heads_batches:
  assumes "\<not> use_graph_head p" and "\<not> use_node_head p"
  shows "backward_calls (snd (train_batches env p clip bs m)) = []"
  using assms
  by (induction bs arbitrary: m)
     (simp_all add: prog_sel backward_no_heads_iteration backward_calls_append
        split: sum.splits)

lemma backward_validation_iteration:
  "backward_calls (snd (validation_iteration env p m b)) = []"
  by (simp add: validation_iteration_def prog_sel snd_compute_losses
      backward_calls_append split: sum.splits prod.splits option.splits)

lemma backward_validation_batches:
  "backward_calls (snd (validation_batches env p bs m)) = []"
  by (induction bs arbitrary: m)
     (simp_all add: prog_sel backward_validation_iteration backward_calls_append
        split: sum.splits)

lemma backward_no_heads_epoch:
  assumes "\<not> use_graph_head p" and "\<not> use_node_head p"
  shows "backward_calls (snd (run_epoch env lp p dm epoch m)) = []"
  using assms
  by (simp add: run_epoch_def prog_sel backward_no_heads_batches
      backward_validation_batches backward_calls_append split: sum.splits)

lemma backward_no_heads_epochs:
  assumes "\<not> use_graph_head p" and "\<not> use_node_head p"
  shows "backward_calls (snd (run_epochs env lp p dm es m)) = []"
  using assms
  by (induction es arbitrary: m)
     (simp_all add: prog_sel backward_no_heads_epoch backward_calls_append
        split: sum.splits)

lemma backward_log_run: "backward_calls (snd (log_run env a)) = []"
  by (simp add: snd_log_run backward_calls_append split: option.splits)

lemma backward_build_model: "backward_calls (snd (build_model env a)) = []"
  by (simp add: build_model_def prog_sel split: sum.splits prod.splits)

lemma backward_make_loggers: "backward_calls (snd (make_loggers a dm p)) = []"
  by (simp add: make_loggers_def prog_sel)

lemma build_model_value:
  assumes "WeakTissueClassifier env (model_config a) = Inr model"
    and "configured_heads (model_config a) = Inr (gh, nh)"
  shows "build_model env a =
     (Inr (model, gh, nh), [LogParam ''nr_parameters'' (PNum (real (nr_parameters env model)))])"
  using assms by (simp add: build_model_def prog_simps)

lemma no_heads_no_backward:
  assumes "configured_heads (model_config a) = Inr (False, False)"
  shows "backward_calls (snd (train_graph_classifier env a)) = []"
proof -
  have h: "fst (build_model env a) = Inr (model, gh, nh) \<Longrightarrow> \<not> gh \<and> \<not> nh" for model gh nh
    using fst_build_model [of env a model gh nh] assms by simp
  have p: "loss_setup env (loss a) False False = Inr p \<Longrightarrow>
      backward_calls (snd (run_epochs env lp p dm es m)) = []" for p lp dm es m
    using backward_no_heads_epochs [of p env lp dm es m]
    by (auto simp: loss_setup_neither)
  show ?thesis
    by (auto simp: train_graph_classifier_def train_body_def prog_sel fst_log_run
        backward_log_run backward_build_model backward_make_loggers fst_make_loggers
        backward_calls_append p
        split: sum.splits prod.splits dest!: h)
qed

lemma no_heads_enters_loop:
  assumes "configured_heads (model_config a) = Inr (False, False)"
    and "prepare_datasets env (dataset a) (effective_data_config a) = Inr dm"
    and "WeakTissueClassifier env (model_config a) = Inr model"
    and "make_optimizer env (optimizer a) model = Inr m0"
    and "make_loaders env a dm = Inr ld"
  shows "fst (train_graph_classifier env a) =
     fst (run_epochs env (loop_params_of a)
            \<lparr> use_graph_head = False, use_node_head = False, graph_criterion = None,
              node_criterion = None, node_loss_weight = None, graph_loss_weight = None \<rparr>
            ld [0..<nat (nr_epochs a)] m0)"
  using assms(2,4,5)
  by (simp add: train_graph_classifier_def train_body_def prog_sel fst_log_run
      build_model_value [OF assms(3) assms(1)] loss_setup_neither fst_make_loggers)

lemma no_heads_iteration:
  assumes "forward env Training m (fst b) = (lg, m1)"
  shows "train_iteration env
            \<lparr> use_graph_head = False, use_node_head = False, graph_criterion = None,
              node_criterion = None, node_loss_weight = None, graph_loss_weight = None \<rparr>
            clip m b
     = (Inr (optimizer_step env (case clip of None \<Rightarrow> m1 | Some c \<Rightarrow> clip_grad_norm env c m1)),
        (case clip of None \<Rightarrow> [] | Some c \<Rightarrow> [ClipGradNorm c]) @
        [OptimizerStep,
         AddIterationOutputs ''train''
           \<lparr> out_graph_loss = None, out_node_loss = None,
             out_graph_logits = fst lg, out_node_logits = snd lg,
             out_graph_labels = fst (snd b), out_node_labels = snd (snd b),
             out_node_associations = batch_num_nodes (fst b) \<rparr>])"
  using assms
  by (cases b; cases lg; cases clip)
     (simp_all add: train_iteration_def compute_losses_def backward_pass_def
        iteration_record_def prog_simps)

text \<open>
  Claim C3, as the script behaves. With neither head configured the script makes no check
  of the head configuration: the loss section assigns no criterion and no weight and
  raises nothing, so the run enters the epoch loop as soon as the datasets, the loaders,
  the model and the optimizer have been built; no call of backward is made anywhere in the
  run, and every training iteration, with or without gradient clipping, steps the
  optimizer and records no loss.
\<close>

theorem no_heads_trains_without_backward:
  assumes "configured_heads (model_config a) = Inr (False, False)"
  shows "backward_calls (snd (train_graph_classifier env a)) = []
   \<and> (prepare_datasets env (dataset a) (effective_data_config a) = Inr dm
      \<and> make_loaders env a dm = Inr ld
      \<and> WeakTissueClassifier env (model_config a) = Inr model
      \<and> make_optimizer env (optimizer a) model = Inr m0 \<longrightarrow>
        fst (train_graph_classifier env a) =
        fst (run_epochs env (loop_params_of a)
               \<lparr> use_graph_head = False, use_node_head = False, graph_criterion = None,
                 node_criterion = None, node_loss_weight = None, graph_loss_weight = None \<rparr>
               ld [0..<nat (nr_epochs a)] m0))
   \<and> (forward env Training m (fst b) = (lg, m1) \<longrightarrow>
        train_iteration env
            \<lparr> use_graph_head = False, use_node_head = False, graph_criterion = None,
              node_criterion = None, node_loss_weight = None, graph_loss_weight = None \<rparr>
            clip m b
        = (Inr (optimizer_step env
                  (case clip of None \<Rightarrow> m1 | Some c \<Rightarrow> clip_grad_norm env c m1)),
           (case clip of None \<Rightarrow> [] | Some c \<Rightarrow> [ClipGradNorm c]) @
           [OptimizerStep,
            AddIterationOutputs ''train''
              \<lparr> out_graph_loss = None, out_node_loss = None,
                out_graph_logits = fst lg, out_node_logits = snd lg,
                out_graph_labels = fst (snd b), out_node_labels = snd (snd b),
                out_node_associations = batch_num_nodes (fst b) \<rparr>]))"
proof -
  have loop: "fst (train_graph_classifier env a) =
        fst (run_epochs env (loop_params_of a)
               \<lparr> use_graph_head = False, use_node_head = False, graph_criterion = None,
                 node_criterion = None, node_loss_weight = None, graph_loss_weight = None \<rparr>
               ld [0..<nat (nr_epochs a)] m0)"
    if "prepare_datasets env (dataset a) (effective_data_config a) = Inr dm
      \<and> make_loaders env a dm = Inr ld
      \<and> WeakTissueClassifier env (model_config a) = Inr model
      \<and> make_optimizer env (optimizer a) model = Inr m0"
    using that no_heads_enters_loop [OF assms, of env dm model m0 ld] by blast
  show ?thesis
    using no_heads_no_backward [OF assms, of env] loop
      no_heads_iteration [of env m b lg m1 clip]
    by blast
qed

subsection \<open>The default weight\<close>

text \<open>
  Claim C8. With both heads on and no 'node_weight' entry in the loss configuration,
  node_loss_weight is 0.5 and so is graph_loss_weight: the loss passed to backward weighs
  the graph loss and the node loss equally.
\<close>

theorem default_node_weight_is_half:
  assumes "loss_setup env l True True = Inr p"
    and "map_of l ''node_weight'' = None"
    and "forward env Training m graph = ((graph_logits, node_logits), m1)"
  shows "node_loss_weight p = Some (1 / 2) \<and> graph_loss_weight p = Some (1 / 2)
   \<and> (\<exists>cg cn. graph_criterion p = Some cg \<and> node_criterion p = Some cn
        \<and> backward_calls (snd (train_iteration env p clip m (graph, graph_labels, node_labels)))
            = [1 / 2 * cg (GraphArgs graph_logits graph_labels)
               + 1 / 2 * cn (NodeArgs node_logits node_labels (batch_num_nodes graph))])"
proof -
  from loss_setup_both [OF assms(1)] obtain cg cn w where
    w: "as_number (get_or l ''node_weight'' (PNum 0.5)) = Some w"
    and p: "p = \<lparr> use_graph_head = True, use_node_head = True, graph_criterion = Some cg,
             node_criterion = Some cn, node_loss_weight = Some w,
             graph_loss_weight = Some (1 - w) \<rparr>"
    by blast
  from w assms(2) have half: "w = 1 / 2"
    by (simp add: get_or_def)
  show ?thesis
    using train_iteration_both [OF p assms(3)] p half by simp
qed

subsection \<open>The node weight with at most one head\<close>

lemma map_of_agree:
  assumes "AList.delete ''node_weight'' l1 = AList.delete ''node_weight'' l2"
    and "k \<noteq> ''node_weight''"
  shows "map_of l1 k = map_of l2 k"
proof -
  have "map_of (AList.delete ''node_weight'' l1) k = map_of (AList.delete ''node_weight'' l2) k"
    using assms(1) by simp
  then show ?thesis
    using assms(2) by (simp add: AList.delete_conv)
qed

lemma get_loss_agree:
  assumes "AList.delete ''node_weight'' l1 = AList.delete ''node_weight'' l2"
    and "name \<noteq> ''node_weight''"
  shows "get_loss env l1 name = get_loss env l2 name"
  using map_of_agree [OF assms] by (simp add: get_loss_def getitem_def)

lemma loss_setup_agree:
  assumes "AList.delete ''node_weight'' l1 = AList.delete ''node_weight'' l2"
    and "\<not> (gh \<and> nh)"
  shows "loss_setup env l1 gh nh = loss_setup env l2 gh nh"
  using assms(2) get_loss_agree [OF assms(1), of "''graph''" env]
    get_loss_agree [OF assms(1), of "''node''" env]
  by (cases gh; cases nh) (simp_all add: loss_setup_def split: sum.splits)

lemma train_body_agree:
  assumes "AList.delete ''node_weight'' l1 = AList.delete ''node_weight'' l2"
    and "configured_heads (model_config a) \<noteq> Inr (True, True)"
  shows "train_body env a l1 = train_body env a l2"
proof (cases "fst (build_model env a)")
  case (Inl e)
  then show ?thesis
    by (cases "build_model env a")
       (simp add: train_body_def and_then_def call_def emit_def split: sum.splits prod.splits)
next
  case (Inr r)
  obtain model gh nh where r: "r = (model, gh, nh)" by (cases r)
  from Inr r have "configured_heads (model_config a) = Inr (gh, nh)"
    using fst_build_model [of env a model gh nh] by simp
  with assms(2) have "\<not> (gh \<and> nh)" by auto
  from loss_setup_agree [OF assms(1) this]
  have eq: "loss_setup env l1 gh nh = loss_setup env l2 gh nh" .
  from Inr r show ?thesis
    by (cases "build_model env a")
       (simp add: train_body_def and_then_def call_def emit_def eq
          split: sum.splits prod.splits)
qed

text \<open>
  Claim C9, as the script behaves. With at most one head configured, the script never
  looks up or range-checks 'node_weight': two runs whose loss configurations agree once
  that entry is removed have the same outcome and make the same calls, except that the
  loss configuration handed whole to the run's parameter log still carries the entry.
\<close>

theorem node_weight_unused_with_one_head:
  assumes "configured_heads (model_config a) \<noteq> Inr (True, True)"
    and "AList.delete ''node_weight'' l1 = AList.delete ''node_weight'' l2"
  shows "fst (train_graph_classifier env (a\<lparr>loss := l1\<rparr>))
       = fst (train_graph_classifier env (a\<lparr>loss := l2\<rparr>))
   \<and> map drop_logged_node_weight (snd (train_graph_classifier env (a\<lparr>loss := l1\<rparr>)))
       = map drop_logged_node_weight (snd (train_graph_classifier env (a\<lparr>loss := l2\<rparr>)))"
proof -
  have ml: "make_loaders env (a\<lparr>loss := l\<rparr>) dm = make_loaders env a dm" for l dm
    by (simp add: make_loaders_def cong: sum.case_cong)
  have f: "train_body env (a\<lparr>loss := l\<rparr>) x = train_body env a x" for l x
    by (simp add: train_body_def build_model_def make_loggers_def ml
        loop_params_of_def effective_data_config_def)
  have b: "train_body env (a\<lparr>loss := l1\<rparr>) l1 = train_body env (a\<lparr>loss := l2\<rparr>) l2"
    using train_body_agree [OF assms(2) assms(1), of env] by (simp add: f)
  show ?thesis
    using assms(2)
    by (simp add: train_graph_classifier_def prog_sel fst_log_run snd_log_run b
        effective_data_config_def split: option.splits)
qed

section \<open>Properties of the S3 helpers\<close>

lemma download_result:
  assumes "fst (obtain_s3 w s3) = Inr h"
  shows "fst (download_file_to_local w s3 b k n) =
     Inr (case fst (try_download w h b k n) of None \<Rightarrow> Some n | Some e \<Rightarrow> None)"
  using assms
  by (auto simp: download_file_to_local_def split: prod.splits sum.splits option.splits)

lemma download_failure_logged:
  assumes "fst (obtain_s3 w s3) = Inr h"
    and "fst (try_download w h b k n) = Some e"
  shows "LogError ''%s could not be downloaded to %s'' [k, n]
           \<in> set (snd (download_file_to_local w s3 b k n))
       \<and> LogError (error_text e) [] \<in> set (snd (download_file_to_local w s3 b k n))"
  using assms
  by (auto simp: download_file_to_local_def split: prod.splits sum.splits option.splits)

lemma try_download_reached:
  assumes "open_wb w n = Inr f" and "listdir w (dirname w f) = Inr names"
  shows "fst (try_download w h b k n) = leave_with w f (download_fileobj w h b k f)"
  using assms by (simp add: try_download_def Let_def)

text \<open>
  Claim C7. Once the S3 handle is there, download_file_to_local raises nothing: it
  returns the local name it was given or None. When the download raises, the failure is
  logged and the result is None; when the download and the closing of the file succeed,
  the result is the local name.
\<close>

theorem download_failure_is_a_sentinel:
  assumes "fst (obtain_s3 w s3) = Inr h"
  shows "(\<exists>r. fst (download_file_to_local w s3 b k n) = Inr r \<and> (r = None \<or> r = Some n))
   \<and> (open_wb w n = Inr f \<and> listdir w (dirname w f) = Inr names
        \<and> download_fileobj w h b k f = Some e \<longrightarrow>
          fst (download_file_to_local w s3 b k n) = Inr None
        \<and> LogError ''%s could not be downloaded to %s'' [k, n]
             \<in> set (snd (download_file_to_local w s3 b k n)))
   \<and> (open_wb w n = Inr f \<and> listdir w (dirname w f) = Inr names
        \<and> download_fileobj w h b k f = None \<and> close_file w f = None \<longrightarrow>
          fst (download_file_to_local w s3 b k n) = Inr (Some n))"
proof -
  have total: "\<exists>r. fst (download_file_to_local w s3 b k n) = Inr r \<and> (r = None \<or> r = Some n)"
    using download_result [OF assms] by (simp split: option.splits)
  have failure: "fst (download_file_to_local w s3 b k n) = Inr None
        \<and> LogError ''%s could not be downloaded to %s'' [k, n]
             \<in> set (snd (download_file_to_local w s3 b k n))"
    if a: "open_wb w n = Inr f \<and> listdir w (dirname w f) = Inr names
        \<and> download_fileobj w h b k f = Some e"
  proof -
    from a have "\<exists>e'. fst (try_download w h b k n) = Some e'"
      using try_download_reached [of w n f names h b k]
      by (auto simp: leave_with_def split: option.splits)
    then obtain e' where e': "fst (try_download w h b k n) = Some e'" by blast
    show ?thesis
      using download_result [OF assms, of b k n] download_failure_logged [OF assms e'] e'
      by simp
  qed
  have success: "fst (download_file_to_local w s3 b k n) = Inr (Some n)"
    if a: "open_wb w n = Inr f \<and> listdir w (dirname w f) = Inr names
        \<and> download_fileobj w h b k f = None \<and> close_file w f = None"
  proof -
    from a have "fst (try_download w h b k n) = None"
      using try_download_reached [of w n f names h b k]
      by (simp add: leave_with_def)
    then show ?thesis
      using download_result [OF assms, of b k n] by simp
  qed
  show ?thesis
    using total failure success by blast
qed

lemma dirname_example: "posix_dirname ''/data/tmp.svs'' = ''/data''"
  by (simp add: posix_dirname_def)

lemma dirname_bare: "posix_dirname ''tmp.svs'' = []"
  by (simp add: posix_dirname_def)

theorem download_failure_is_a_sentinel_witness:
  "fst (download_file_to_local (example_world (Some (ExternalError ''404''))) (Some ())
          ''test-data'' ''test_wsi.svs'' ''/data/tmp.svs'') = Inr None
   \<and> LogError ''%s could not be downloaded to %s'' [''test_wsi.svs'', ''/data/tmp.svs'']
        \<in> set (snd (download_file_to_local (example_world (Some (ExternalError ''404'')))
             (Some ()) ''test-data'' ''test_wsi.svs'' ''/data/tmp.svs''))
   \<and> fst (download_file_to_local (example_world None) None
          ''test-data'' ''test_wsi.svs'' ''/data/tmp.svs'') = Inr (Some ''/data/tmp.svs'')"
proof -
  have h1: "fst (obtain_s3 (example_world (Some (ExternalError ''404''))) (Some ())) = Inr ()"
    by (simp add: obtain_s3_def)
  have h2: "fst (obtain_s3 (example_world None) None) = Inr ()"
    by (simp add: obtain_s3_def get_s3_def example_world_def)
  show ?thesis
    using download_failure_is_a_sentinel [OF h1, of "''test-data''" "''test_wsi.svs''"
        "''/data/tmp.svs''" "''/data/tmp.svs''" "[''tmp.svs'']" "ExternalError ''404''"]
      download_failure_is_a_sentinel [OF h2, of "''test-data''" "''test_wsi.svs''"
        "''/data/tmp.svs''" "''/data/tmp.svs''" "[''tmp.svs'']" "ExternalError ''404''"]
    by (simp add: example_world_def dirname_example)
qed

text \<open>
  With a local name that has no directory part, the directory to list is the empty path,
  the listing raises inside the \<open>try\<close>, and the call returns None without starting the
  download, whatever the download would have done.
\<close>

lemma download_bare_name_returns_None:
  "fst (download_file_to_local (example_world None) (Some ())
          ''test-data'' ''test_wsi.svs'' ''tmp.svs'') = Inr None"
  by (simp add: download_file_to_local_def obtain_s3_def try_download_def leave_with_def
      example_world_def dirname_bare)

section \<open>The example run\<close>

lemmas run_simps = train_graph_classifier_def train_body_def log_run_def build_model_def
  make_loggers_def make_optimizer_def make_loaders_def DataLoader_def loop_params_of_def
  configured_heads_def effective_data_config_def loss_setup_def get_loss_def getitem_def get_or_def
  run_epoch_def train_iteration_def validation_iteration_def compute_losses_def
  backward_pass_def iteration_record_def py_mod_def collate_def unpack_samples_def
  dgl_batch_def torch_stack_def torch_cat_def same_size_def
  sample_graph_def sample_graph_label_def sample_node_labels_def
  prog_simps example_env_def example_args_def example_loss_def example_samples_def

lemma upt_0_3: "[0..<3] = [0, 1, 2::nat]"
  by (simp add: upt_rec)

lemma example_heads:
  "configured_heads (model_config (example_args g n l d)) = Inr (g \<noteq> PNone, n \<noteq> PNone)"
  by (simp add: configured_heads_def getitem_def example_args_def)

lemma example_setup_both:
  "loss_setup example_env ((''node_weight'', PNum (1 / 4)) # example_loss) True True =
     Inr \<lparr> use_graph_head = True, use_node_head = True,
           graph_criterion = Some example_criterion, node_criterion = Some example_criterion,
           node_loss_weight = Some (1 / 4), graph_loss_weight = Some (3 / 4) \<rparr>"
  by (simp add: loss_setup_def get_loss_def getitem_def get_or_def example_env_def
      example_loss_def)

lemma example_setup_default:
  "loss_setup example_env example_loss True True =
     Inr \<lparr> use_graph_head = True, use_node_head = True,
           graph_criterion = Some example_criterion, node_criterion = Some example_criterion,
           node_loss_weight = Some (1 / 2), graph_loss_weight = Some (1 / 2) \<rparr>"
  by (simp add: loss_setup_def get_loss_def getitem_def get_or_def example_env_def
      example_loss_def)

lemma example_forward_graph:
  "forward example_env Training 0
      \<lparr> total_nodes = 3, batched_edges = [(0, 1)], batch_num_nodes = [2, 1] \<rparr>
     = ((None, None), 0)"
  by (simp add: example_env_def)

theorem combined_loss_passed_to_backward_witness:
  "backward_calls (snd (train_iteration example_env
      \<lparr> use_graph_head = True, use_node_head = True,
        graph_criterion = Some example_criterion, node_criterion = Some example_criterion,
        node_loss_weight = Some (1 / 4), graph_loss_weight = Some (3 / 4) \<rparr>
      None 0
      (\<lparr> total_nodes = 3, batched_edges = [(0, 1)], batch_num_nodes = [2, 1] \<rparr>,
       [[1, 0], [0, 1]], [3, 4, 5]))) = [5 / 2]"
  using combined_loss_passed_to_backward [OF example_setup_both example_forward_graph,
      where clip = None and graph_labels = "[[1, 0], [0, 1]]" and node_labels = "[3, 4, 5]"]
  by (auto simp: example_criterion_def)

theorem default_node_weight_is_half_witness:
  "backward_calls (snd (train_iteration example_env
      \<lparr> use_graph_head = True, use_node_head = True,
        graph_criterion = Some example_criterion, node_criterion = Some example_criterion,
        node_loss_weight = Some (1 / 2), graph_loss_weight = Some (1 / 2) \<rparr>
      None 0
      (\<lparr> total_nodes = 3, batched_edges = [(0, 1)], batch_num_nodes = [2, 1] \<rparr>,
       [[1, 0], [0, 1]], [3, 4, 5]))) = [3]"
proof -
  have k: "map_of example_loss ''node_weight'' = None"
    by (simp add: example_loss_def)
  show ?thesis
    using default_node_weight_is_half [OF example_setup_default k example_forward_graph,
        where clip = None and graph_labels = "[[1, 0], [0, 1]]" and node_labels = "[3, 4, 5]"]
    by (auto simp: example_criterion_def)
qed

theorem node_weight_out_of_range_fails_fast_witness:
  "fst (train_graph_classifier example_env
          (example_args (PDict []) (PDict []) ((''node_weight'', PNum 7) # example_loss) False))
     = Inl (AssertionError ''Node weight loss must be between 0 and 1, but is'' (PNum 7))
   \<and> \<not> list_ex iteration_event (snd (train_graph_classifier example_env
          (example_args (PDict []) (PDict []) ((''node_weight'', PNum 7) # example_loss) False)))"
proof -
  have h: "configured_heads (model_config
      (example_args (PDict []) (PDict []) ((''node_weight'', PNum 7) # example_loss) False))
      = Inr (True, True)"
    by (simp add: example_heads)
  have w: "\<not> (\<exists>w. as_number (get_or (loss
      (example_args (PDict []) (PDict []) ((''node_weight'', PNum 7) # example_loss) False))
      ''node_weight'' (PNum 0.5)) = Some w \<and> 0 \<le> w \<and> w \<le> 1)"
    by (simp add: example_args_def get_or_def)
  show ?thesis
    using node_weight_out_of_range_fails_fast [OF h w, of example_env]
    by (simp add: run_simps)
qed

lemma example_datasets:
  "prepare_datasets example_env (dataset (example_args g n l d))
      (effective_data_config (example_args g n l d))
     = Inr \<lparr> background_class = 4, nr_classes = 2,
             training_dataset = example_samples, validation_dataset = example_samples \<rparr>"
  by (simp add: example_env_def)

lemma example_loaders:
  "make_loaders example_env (example_args g n l d)
      \<lparr> background_class = 4, nr_classes = 2,
        training_dataset = example_samples, validation_dataset = example_samples \<rparr>
     = Inr \<lparr> training_loader = (\<lambda>pass. [example_samples]),
             validation_loader = (\<lambda>pass. [example_samples]) \<rparr>"
  by (simp add: make_loaders_def DataLoader_def example_env_def example_args_def)

theorem validation_runs_on_due_epochs_witness:
  "validation_path (snd (train_graph_classifier example_env
      (example_args (PDict []) PNone example_loss False)))
     = [ValidationIteration, ValidationFlush 0, ValidationTime 0,
        ValidationIteration, ValidationFlush 2, ValidationTime 2]
   \<and> validation_path (snd (run_epoch example_env
        (loop_params_of (example_args (PDict []) PNone example_loss False))
        \<lparr> use_graph_head = True, use_node_head = False,
          graph_criterion = Some example_criterion, node_criterion = None,
          node_loss_weight = None, graph_loss_weight = None \<rparr>
        \<lparr> training_loader = (\<lambda>pass. [example_samples]),
          validation_loader = (\<lambda>pass. [example_samples]) \<rparr> 1 0)) = []"
proof -
  have c: "fst (train_graph_classifier example_env
      (example_args (PDict []) PNone example_loss False)) = Inr 3"
    by (simp add: run_simps upt_0_3 example_criterion_def)
  have f: "1 \<le> validation_frequency (example_args (PDict []) PNone example_loss False)"
    by (simp add: example_args_def)
  have v: "validation_frequency (example_args (PDict []) PNone example_loss False) = 2"
    and n: "nr_epochs (example_args (PDict []) PNone example_loss False) = 3"
    by (simp_all add: example_args_def)
  show ?thesis
    using validation_runs_on_due_epochs [OF f, of 1 example_env
        "\<lparr> use_graph_head = True, use_node_head = False,
          graph_criterion = Some example_criterion, node_criterion = None,
          node_loss_weight = None, graph_loss_weight = None \<rparr>"
        "\<lparr> training_loader = (\<lambda>pass. [example_samples]),
          validation_loader = (\<lambda>pass. [example_samples]) \<rparr>" 0 0 3
        "\<lparr> background_class = 4, nr_classes = 2,
          training_dataset = example_samples, validation_dataset = example_samples \<rparr>"]
      c example_datasets example_loaders
    by (simp add: v n upt_0_3 validation_epoch_steps_def)
qed

text \<open>A batch size of zero is refused when the loaders are built, before the model is.\<close>

lemma zero_batch_size_raises:
  "train_graph_classifier example_env
      ((example_args (PDict []) PNone example_loss False)\<lparr>batch_size := 0\<rparr>)
     = (Inl (ValueError ''batch_size should be a positive integer value''),
        [SetExperiment ''demo'', LogArtifact ''default.yml'' ''config'', LogSources,
         LogParameters [] [(''gnn_config'', PDict []),
                           (''graph_classifier_config'', PDict []),
                           (''node_classifier_config'', PNone)]
           0 3 [(''class'', PStr ''Adam''), (''params'', PDict [])] example_loss 0 None])"
  by (simp add: run_simps)

theorem dry_run_suppresses_checkpoint_witness:
  "validation_flushes (snd (train_graph_classifier example_env
      (example_args (PDict []) PNone example_loss True))) = [(0, None), (2, None)]
   \<and> validation_flushes (snd (train_graph_classifier example_env
      (example_args (PDict []) PNone example_loss False))) = [(0, Some 1), (2, Some 3)]"
  using dry_run_suppresses_checkpoint
      [of "example_args (PDict []) PNone example_loss True" example_env 3]
    dry_run_suppresses_checkpoint
      [of "example_args (PDict []) PNone example_loss False" example_env 3]
  by (simp add: run_simps upt_0_3 example_criterion_def)

theorem no_heads_counterexample:
  "fst (train_graph_classifier example_env (example_args PNone PNone example_loss False))
     = Inr 3
   \<and> length (filter (\<lambda>ev. ev = OptimizerStep) (snd (train_graph_classifier example_env
        (example_args PNone PNone example_loss False)))) = 3
   \<and> backward_calls (snd (train_graph_classifier example_env
        (example_args PNone PNone example_loss False))) = []"
  by (simp add: run_simps upt_0_3)

theorem no_heads_trains_without_backward_witness:
  "backward_calls (snd (train_graph_classifier example_env
        (example_args PNone PNone example_loss False))) = []
   \<and> fst (train_graph_classifier example_env (example_args PNone PNone example_loss False))
     = Inr 3"
proof -
  have h: "configured_heads (model_config (example_args PNone PNone example_loss False))
      = Inr (False, False)"
    by (simp add: example_heads)
  show ?thesis
    using no_heads_trains_without_backward [OF h, of example_env]
    by (simp add: run_simps upt_0_3)
qed

theorem node_weight_logged_counterexample:
  "snd (train_graph_classifier example_env
      (example_args (PDict []) PNone ((''node_weight'', PNum (1 / 5)) # example_loss) False))
   \<noteq> snd (train_graph_classifier example_env
      (example_args (PDict []) PNone ((''node_weight'', PNum (9 / 10)) # example_loss) False))"
  by (simp add: run_simps upt_0_3 example_criterion_def)

theorem node_weight_unused_with_one_head_witness:
  "fst (train_graph_classifier example_env
      ((example_args (PDict []) PNone [] False)
         \<lparr>loss := (''node_weight'', PNum (1 / 5)) # example_loss\<rparr>))
   = fst (train_graph_classifier example_env
      ((example_args (PDict []) PNone [] False)
         \<lparr>loss := (''node_weight'', PStr ''high'') # example_loss\<rparr>))
   \<and> map drop_logged_node_weight (snd (train_graph_classifier example_env
      ((example_args (PDict []) PNone [] False)
         \<lparr>loss := (''node_weight'', PNum (1 / 5)) # example_loss\<rparr>)))
   = map drop_logged_node_weight (snd (train_graph_classifier example_env
      ((example_args (PDict []) PNone [] False)
         \<lparr>loss := (''node_weight'', PStr ''high'') # example_loss\<rparr>)))"
proof -
  have h: "configured_heads (model_config (example_args (PDict []) PNone [] False))
      \<noteq> Inr (True, True)"
    by (simp add: example_heads)
  have d: "AList.delete ''node_weight'' ((''node_weight'', PNum (1 / 5)) # example_loss)
      = AList.delete ''node_weight'' ((''node_weight'', PStr ''high'') # example_loss)"
    by (simp add: example_loss_def AList.delete_eq)
  show ?thesis
    by (rule node_weight_unused_with_one_head [OF h d])
qed

end
